theory Spec2Isabelle
  imports Complex_Main
begin

section \<open>JavaScript values read by the ledger code\<close>

text \<open>
  The transaction code of \<^verbatim>\<open>src/lib/transactions/index.js\<close> reads amounts that are
  either JavaScript numbers (items assembled in memory), decimal strings (DECIMAL columns
  as the database driver returns them), \<^verbatim>\<open>null\<close> or \<^verbatim>\<open>undefined\<close>.  The model keeps
  that distinction, because the source branches on truthiness and on strict equality with
  a string.  A number held by a field is finite and is given by the rational it denotes.
\<close>

datatype jsval = JUndefined | JNull | JNum rat | JStr string

fun truthy :: "jsval \<Rightarrow> bool" where
  "truthy JUndefined = False"
| "truthy JNull = False"
| "truthy (JNum r) = (r \<noteq> 0)"
| "truthy (JStr s) = (s \<noteq> [])"

section \<open>Double-precision arithmetic\<close>

text \<open>
  A JavaScript number is an IEEE 754 double: a finite value, given here by the rational
  it denotes, one of the two infinities, or \<^verbatim>\<open>NaN\<close>.  Every arithmetic operation
  returns the exact result rounded to the nearest double, ties to the even significand,
  and an infinity where the rounded result is out of range.  Zero carries no sign: the
  modelled code never divides by zero nor prints a zero.
\<close>

datatype fnum = NaN | PInf | NInf | Fin rat

fun bitLength :: "nat \<Rightarrow> nat" where
  "bitLength n = (if n = 0 then 0 else Suc (bitLength (n div 2)))"

declare bitLength.simps [simp del]

definition pow2 :: "int \<Rightarrow> rat" where
  "pow2 s = (if 0 \<le> s then 2 ^ nat s else 1 / 2 ^ nat (- s))"

text \<open>The binary exponent of a positive rational \<open>a\<close>: the integer \<open>e\<close> with
  \<open>pow2 e \<le> a\<close> and \<open>a < pow2 (e + 1)\<close>.\<close>

definition binaryExponent :: "rat \<Rightarrow> int" where
  "binaryExponent a =
     (if 1 \<le> a then int (bitLength (nat \<lfloor>a\<rfloor>)) - 1
      else - int (bitLength (nat (\<lceil>1 / a\<rceil> - 1))))"

definition roundHalfEven :: "rat \<Rightarrow> int" where
  "roundHalfEven q =
     (let f = \<lfloor>q\<rfloor>; d = q - of_int f
      in if d < 1 / 2 then f else if 1 / 2 < d then f + 1 else if even f then f else f + 1)"

text \<open>The double nearest to a rational: a significand of 53 bits, an exponent no smaller
  than that of the subnormal numbers, and an infinity from \<open>2 ^ 1024\<close> on.\<close>

definition roundDouble :: "rat \<Rightarrow> fnum" where
  "roundDouble x =
     (if x = 0 then Fin 0
      else
        (let a = \<bar>x\<bar>;
             s = max (binaryExponent a - 52) (- 1074);
             r = of_int (roundHalfEven (a / pow2 s)) * pow2 s
         in if 2 ^ 1024 \<le> r then (if 0 < x then PInf else NInf)
            else Fin (if x < 0 then - r else r)))"

text \<open>The value of a decimal literal of the source or of a test input, such as
  \<^verbatim>\<open>0.001\<close>: the double nearest to it.\<close>

definition dbl :: "rat \<Rightarrow> rat" where
  "dbl x = (case roundDouble x of Fin v \<Rightarrow> v | _ \<Rightarrow> 0)"

fun fneg :: "fnum \<Rightarrow> fnum" where
  "fneg NaN = NaN"
| "fneg PInf = NInf"
| "fneg NInf = PInf"
| "fneg (Fin a) = Fin (- a)"

fun fabs :: "fnum \<Rightarrow> fnum" where
  "fabs NaN = NaN"
| "fabs PInf = PInf"
| "fabs NInf = PInf"
| "fabs (Fin a) = Fin \<bar>a\<bar>"

fun fadd :: "fnum \<Rightarrow> fnum \<Rightarrow> fnum" where
  "fadd (Fin a) (Fin b) = roundDouble (a + b)"
| "fadd NaN y = NaN"
| "fadd x NaN = NaN"
| "fadd PInf NInf = NaN"
| "fadd NInf PInf = NaN"
| "fadd PInf y = PInf"
| "fadd NInf y = NInf"
| "fadd x PInf = PInf"
| "fadd x NInf = NInf"

definition fsub :: "fnum \<Rightarrow> fnum \<Rightarrow> fnum" where
  "fsub x y = fadd x (fneg y)"

text \<open>Multiplication and division by a finite constant; the code multiplies and divides
  by 100 only.\<close>

fun fmul :: "fnum \<Rightarrow> rat \<Rightarrow> fnum" where
  "fmul NaN b = NaN"
| "fmul PInf b = (if 0 < b then PInf else if b < 0 then NInf else NaN)"
| "fmul NInf b = (if 0 < b then NInf else if b < 0 then PInf else NaN)"
| "fmul (Fin a) b = roundDouble (a * b)"

fun fdiv :: "fnum \<Rightarrow> rat \<Rightarrow> fnum" where
  "fdiv NaN b = NaN"
| "fdiv PInf b = (if 0 \<le> b then PInf else NInf)"
| "fdiv NInf b = (if 0 \<le> b then NInf else PInf)"
| "fdiv (Fin a) b =
     (if b = 0 then (if a = 0 then NaN else if 0 < a then PInf else NInf)
      else roundDouble (a / b))"

text \<open>The comparisons \<^verbatim>\<open><\<close> and \<^verbatim>\<open><=\<close>; with \<^verbatim>\<open>NaN\<close> on either side both are
  false.  \<^verbatim>\<open>a > b\<close> is \<^verbatim>\<open>b < a\<close> and \<^verbatim>\<open>a >= b\<close> is \<^verbatim>\<open>b <= a\<close>.\<close>

fun flt :: "fnum \<Rightarrow> fnum \<Rightarrow> bool" where
  "flt NaN y = False"
| "flt x NaN = False"
| "flt PInf y = False"
| "flt x NInf = False"
| "flt NInf y = True"
| "flt x PInf = True"
| "flt (Fin a) (Fin b) = (a < b)"

fun fle :: "fnum \<Rightarrow> fnum \<Rightarrow> bool" where
  "fle NaN y = False"
| "fle x NaN = False"
| "fle NInf y = True"
| "fle x PInf = True"
| "fle PInf y = False"
| "fle x NInf = False"
| "fle (Fin a) (Fin b) = (a \<le> b)"

definition fgt :: "fnum \<Rightarrow> fnum \<Rightarrow> bool" where
  "fgt x y = flt y x"

definition fge :: "fnum \<Rightarrow> fnum \<Rightarrow> bool" where
  "fge x y = fle y x"

text \<open>\<^verbatim>\<open>Math.round\<close>: the nearest integer, halves upwards; the result is computed
  exactly.\<close>

fun fround :: "fnum \<Rightarrow> fnum" where
  "fround (Fin a) = Fin (of_int \<lfloor>a + 1 / 2\<rfloor>)"
| "fround x = x"

text \<open>The sum lodash computes (\<^verbatim>\<open>_.sum\<close>, \<^verbatim>\<open>_.sumBy\<close>): 0 for the empty array,
  otherwise the first value, to which the others are added from left to right.\<close>

fun sumF :: "fnum list \<Rightarrow> fnum" where
  "sumF [] = Fin 0"
| "sumF (x # xs) = foldl fadd x xs"

section \<open>parseFloat\<close>

definition isDigit :: "char \<Rightarrow> bool" where
  "isDigit c = (c \<in> set ''0123456789'')"

definition isWhite :: "char \<Rightarrow> bool" where
  "isWhite c = (c \<in> {CHR '' '', CHR 0x09, CHR 0x0A, CHR 0x0B, CHR 0x0C, CHR 0x0D})"

definition digitsValue :: "string \<Rightarrow> nat" where
  "digitsValue ds = foldl (\<lambda>a c. 10 * a + (of_char c - 48)) 0 ds"

definition pow10 :: "int \<Rightarrow> rat" where
  "pow10 e = (if 0 \<le> e then 10 ^ nat e else 1 / 10 ^ nat (- e))"

text \<open>The optional exponent part of a decimal literal: \<^verbatim>\<open>e\<close> or \<^verbatim>\<open>E\<close>, an optional
  sign, and at least one digit; anything else is not part of the number.\<close>

definition exponentPart :: "string \<Rightarrow> int" where
  "exponentPart s =
     (case s of
        [] \<Rightarrow> 0
      | c # r \<Rightarrow>
          if c = CHR ''e'' \<or> c = CHR ''E'' then
            (let (neg, r') = (case r of
                   [] \<Rightarrow> (False, r)
                 | d # t \<Rightarrow> if d = CHR ''-'' then (True, t)
                            else if d = CHR ''+'' then (False, t) else (False, r));
                 ds = takeWhile isDigit r'
             in if ds = [] then 0
                else if neg then - int (digitsValue ds) else int (digitsValue ds))
          else 0)"

text \<open>\<^verbatim>\<open>parseFloat\<close> on a string: leading white space is skipped, then the longest
  prefix that is a decimal literal is read (sign, \<^verbatim>\<open>Infinity\<close> or digits, fraction,
  exponent) and its value rounded to the nearest double; when there is none the result is
  \<^verbatim>\<open>NaN\<close>.\<close>

definition parseFloatStr :: "string \<Rightarrow> fnum" where
  "parseFloatStr s =
     (let s1 = dropWhile isWhite s;
          (neg, s2) = (case s1 of
             [] \<Rightarrow> (False, s1)
           | c # r \<Rightarrow> if c = CHR ''-'' then (True, r)
                      else if c = CHR ''+'' then (False, r) else (False, s1));
          ip = takeWhile isDigit s2;
          s3 = dropWhile isDigit s2;
          (fp, s4) = (case s3 of
             [] \<Rightarrow> ([], s3)
           | c # r \<Rightarrow> if c = CHR ''.'' then (takeWhile isDigit r, dropWhile isDigit r)
                      else ([], s3))
      in if take 8 s2 = ''Infinity'' then (if neg then NInf else PInf)
         else if ip = [] \<and> fp = [] then NaN
         else
           (let m = (of_nat (digitsValue ip) + of_nat (digitsValue fp) / 10 ^ length fp)
                      * pow10 (exponentPart s4)
            in roundDouble (if neg then - m else m)))"

text \<open>\<^verbatim>\<open>parseFloat(v)\<close> first converts \<open>v\<close> to a string; a finite number reads back as
  itself, \<^verbatim>\<open>null\<close> and \<^verbatim>\<open>undefined\<close> read as \<^verbatim>\<open>NaN\<close>.\<close>

fun parseFloat :: "jsval \<Rightarrow> fnum" where
  "parseFloat (JNum r) = Fin r"
| "parseFloat (JStr s) = parseFloatStr s"
| "parseFloat JNull = NaN"
| "parseFloat JUndefined = NaN"

text \<open>Errors are values.  \<open>AssertionError\<close> is what Node's \<^verbatim>\<open>assert\<close> throws,
  \<open>TypeError\<close> what a property read on \<^verbatim>\<open>undefined\<close> throws, \<open>Error\<close> a plain
  \<^verbatim>\<open>new Error(msg)\<close>; \<open>TransactionError\<close> and \<open>ChargeError\<close> are the repository's
  own classes, \<open>ExternalError\<close> stands for whatever a collaborator outside the file
  (authorisation, the payment gateway) throws.  A \<open>TransactionError\<close> carries its
  message; the messages that interpolate values are kept as constructors with those values.\<close>

datatype reason =
    TripCancelled nat
      \<comment> \<open>\<^verbatim>\<open>Trip ${tripId} has been cancelled\<close>\<close>
  | InvalidStop nat
      \<comment> \<open>\<^verbatim>\<open>Invalid stop given for trip #${dbTrip.id}\<close>\<close>
  | BookingWindowClosed rat
      \<comment> \<open>\<^verbatim>\<open>You may not book this trip later than\<close> followed by the cut-off time\<close>
  | DuplicateTicket nat nat
      \<comment> \<open>\<^verbatim>\<open>User #${userId} already has ticket [${id}] for the trip\<close>\<close>
  | MultipleCompanies
      \<comment> \<open>\<^verbatim>\<open>Payment to multiple companies is not yet supported\<close>\<close>
  | PriceChanged
      \<comment> \<open>\<^verbatim>\<open>The price has changed since you last viewed it\<close>\<close>
  | NonValidTicket
      \<comment> \<open>\<^verbatim>\<open>Trying to refund a non-valid ticket\<close>\<close>
  | TicketNotSold
      \<comment> \<open>\<^verbatim>\<open>Cannot refund/void a ticket that was not sold - ticketSale not found\<close>\<close>
  | NoPaymentMade
      \<comment> \<open>\<^verbatim>\<open>No payment was made for this transaction\<close>\<close>
  | RefundNotTicketValue
      \<comment> \<open>\<^verbatim>\<open>Current implementation requires requested refund to equal ticket value after discounts\<close>\<close>
  | RefundExceedsAllowed
      \<comment> \<open>\<^verbatim>\<open>Refund requested causes total refunded to exceed allowed refund amount\<close>\<close>
  | RefundExceedsPaid
      \<comment> \<open>\<^verbatim>\<open>Requested refund exceeds amount paid for ticket\<close>\<close>
  | ItemNotOfRoutePass
      \<comment> \<open>\<^verbatim>\<open>This transaction item does not relate to this route pass\<close>\<close>
  | ItemHasDebit
      \<comment> \<open>\<^verbatim>\<open>This transaction item has debit > 0, ...\<close>\<close>
  | RoutePassNotRefundable string
      \<comment> \<open>\<^verbatim>\<open>Only valid, void or expired route passes can be refunded. This route pass is [${status}]\<close>\<close>

datatype error =
    AssertionError
  | TypeError
  | Error string
  | TransactionError reason
  | ChargeError
  | ExternalError

section \<open>validateTxn\<close>

record txn_item =
  itemType :: string
  itemId :: jsval
  debit :: jsval
  credit :: jsval

record txn =
  transactionItems :: "txn_item list option"

text \<open>The iteratee of \<^verbatim>\<open>_.sumBy\<close>:
  \<^verbatim>\<open>debit ? parseFloat(debit) : credit ? -parseFloat(credit) : 0\<close>.\<close>

definition signedAmount :: "txn_item \<Rightarrow> fnum" where
  "signedAmount it =
     (if truthy (debit it) then parseFloat (debit it)
      else if truthy (credit it) then fneg (parseFloat (credit it))
      else Fin 0)"

text \<open>\<^verbatim>\<open>_.sumBy(items, f)\<close>: the values of the iteratee, added as doubles in the order
  of the items.\<close>

definition sumOfDebit :: "txn_item list \<Rightarrow> fnum" where
  "sumOfDebit items = sumF (map signedAmount items)"

text \<open>\<^verbatim>\<open>Math.abs(sumOfDebit) > 0.000001\<close>.\<close>

definition exceedsTolerance :: "fnum \<Rightarrow> bool" where
  "exceedsTolerance s = fgt (fabs s) (roundDouble (1 / 1000000))"

definition validateTxn :: "'a txn_scheme \<Rightarrow> error + 'a txn_scheme" where
  "validateTxn t =
     (case transactionItems t of
        None \<Rightarrow> Inl AssertionError
      | Some items \<Rightarrow>
          if \<not> list_all (\<lambda>it. truthy (itemId it)) items then Inl AssertionError
          else if exceedsTolerance (sumOfDebit items)
          then Inl (Error ''Transaction does not add up to zero. This is usually a programming mistake'')
          else Inr t)"

section \<open>Booking checks\<close>

text \<open>Tickets, trip stops and trips as the checks read them.  Times are the millisecond
  counts of \<^verbatim>\<open>Date.getTime()\<close>; identifiers are database keys.\<close>

record ticket =
  ticket_id :: nat
  ticket_userId :: nat
  ticket_status :: string

record trip_stop =
  stop_id :: nat
  stop_time :: rat
  stop_tickets :: "ticket list"

text \<open>A field of the stored \<^verbatim>\<open>bookingInfo\<close> JSON as the Joi schema sees it: the key
  is missing, or it holds a value of the schema's base type (for \<^verbatim>\<open>windowSize\<close> a
  number, or a string that \<^verbatim>\<open>Joi.number()\<close> converts to one), or it holds anything
  else (\<^verbatim>\<open>null\<close>, an object, a string that is no number).\<close>

datatype 'a field = Missing | Given 'a | Invalid

record booking_info_raw =
  raw_windowType :: "string field"
  raw_windowSize :: "rat field"

record booking_info =
  windowType :: string
  windowSize :: rat

record trip =
  trip_id :: nat
  isRunning :: bool
  transportCompanyId :: nat
  tripStops :: "trip_stop list"
  bookingInfo :: "booking_info_raw option"

record trip_order =
  tripId :: nat
  boardStopId :: nat
  alightStopId :: nat
  userId :: nat

text \<open>\<^verbatim>\<open>Array.prototype.findIndex\<close>: the index of the first element that satisfies the
  predicate; \<open>None\<close> stands for the result \<^verbatim>\<open>-1\<close>.\<close>

fun findIndex :: "('a \<Rightarrow> bool) \<Rightarrow> 'a list \<Rightarrow> nat option" where
  "findIndex p [] = None"
| "findIndex p (x # xs) = (if p x then Some 0 else map_option Suc (findIndex p xs))"

text \<open>\<^verbatim>\<open>_.min\<close>: \<^verbatim>\<open>undefined\<close> for the empty array.\<close>

fun minOf :: "rat list \<Rightarrow> rat option" where
  "minOf [] = None"
| "minOf (x # xs) = (case minOf xs of None \<Rightarrow> Some x | Some m \<Rightarrow> Some (min x m))"

text \<open>The Joi schema of \<^verbatim>\<open>checkStopsAndBookingWindow\<close>:
  \<^verbatim>\<open>windowType: Joi.valid(["stop", "firstStop"]).default("stop")\<close>,
  \<^verbatim>\<open>windowSize: Joi.number().default(0)\<close>, unknown keys allowed.  \<open>None\<close> is a
  validation error.\<close>

definition joiBookingInfo :: "booking_info_raw \<Rightarrow> booking_info option" where
  "joiBookingInfo raw =
     (case raw_windowType raw of
        Invalid \<Rightarrow> None
      | Given ty \<Rightarrow>
          if ty = ''stop'' \<or> ty = ''firstStop'' then
            (case raw_windowSize raw of
               Invalid \<Rightarrow> None
             | Given sz \<Rightarrow> Some \<lparr>windowType = ty, windowSize = sz\<rparr>
             | Missing \<Rightarrow> Some \<lparr>windowType = ty, windowSize = 0\<rparr>)
          else None
      | Missing \<Rightarrow>
          (case raw_windowSize raw of
             Invalid \<Rightarrow> None
           | Given sz \<Rightarrow> Some \<lparr>windowType = ''stop'', windowSize = sz\<rparr>
           | Missing \<Rightarrow> Some \<lparr>windowType = ''stop'', windowSize = 0\<rparr>))"

definition defaultBookingInfo :: booking_info where
  "defaultBookingInfo = \<lparr>windowType = ''stop'', windowSize = 0\<rparr>"

text \<open>\<^verbatim>\<open>Joi.validate(dbTrip.bookingInfo || {}, ...)\<close>, and the defaults on an error.\<close>

definition effectiveBookingInfo :: "'a trip_scheme \<Rightarrow> booking_info" where
  "effectiveBookingInfo dbTrip =
     (case joiBookingInfo
             (case bookingInfo dbTrip of
                None \<Rightarrow> \<lparr>raw_windowType = Missing, raw_windowSize = Missing\<rparr>
              | Some raw \<Rightarrow> raw) of
        None \<Rightarrow> defaultBookingInfo
      | Some bi \<Rightarrow> bi)"

text \<open>The cut-off of the booking window, computed as the source does.  In the
  \<^verbatim>\<open>firstStop\<close> branch \<^verbatim>\<open>_.min\<close> of an empty array would give \<^verbatim>\<open>undefined\<close> and the
  sum \<^verbatim>\<open>NaN\<close>, here \<open>None\<close>.\<close>

definition cutOff :: "'a trip_scheme \<Rightarrow> nat \<Rightarrow> nat \<Rightarrow> rat option" where
  "cutOff dbTrip boardStopIndex alightStopIndex =
     (let bi = effectiveBookingInfo dbTrip in
      if windowType bi = ''firstStop'' then
        map_option (\<lambda>m. m + windowSize bi) (minOf (map stop_time (tripStops dbTrip)))
      else
        (let boardStopCutoff = stop_time (tripStops dbTrip ! boardStopIndex) + windowSize bi;
             alightStopCutoff = stop_time (tripStops dbTrip ! alightStopIndex) + windowSize bi
         in minOf [boardStopCutoff, alightStopCutoff]))"

text \<open>\<^verbatim>\<open>checkStopsAndBookingWindow(checkBookingWindow, now)\<close> returns a function of
  \<^verbatim>\<open>(dbTrip, rqTrip)\<close>; this is that function.  Either argument can be \<^verbatim>\<open>undefined\<close>
  (\<open>None\<close>): reading \<^verbatim>\<open>dbTrip.tripStops\<close> then throws a TypeError, and so does
  \<^verbatim>\<open>rqTrip.boardStopId\<close> as soon as \<^verbatim>\<open>findIndex\<close> calls its predicate on a first
  stop.  The two indices are only used when \<^verbatim>\<open>findIndex\<close> found them, so \<open>!\<close> stays
  in range.\<close>

definition checkStopsAndBookingWindow ::
  "bool \<Rightarrow> rat \<Rightarrow> 'a trip_scheme option \<Rightarrow> 'b trip_order_scheme option \<Rightarrow> error + unit" where
  "checkStopsAndBookingWindow checkBookingWindow now dbTripArg rqTripArg =
     (case dbTripArg of
        None \<Rightarrow> Inl TypeError
      | Some dbTrip \<Rightarrow>
         (case rqTripArg of
            None \<Rightarrow>
              if tripStops dbTrip = [] then Inl (TransactionError (InvalidStop (trip_id dbTrip)))
              else Inl TypeError
          | Some rqTrip \<Rightarrow>
             (case (findIndex (\<lambda>ts. stop_id ts = boardStopId rqTrip) (tripStops dbTrip),
                    findIndex (\<lambda>ts. stop_id ts = alightStopId rqTrip) (tripStops dbTrip)) of
                (Some boardStopIndex, Some alightStopIndex) \<Rightarrow>
                  if \<not> checkBookingWindow then Inr ()
                  else (case cutOff dbTrip boardStopIndex alightStopIndex of
                          None \<Rightarrow> Inr ()
                        | Some c \<Rightarrow>
                            if now > c then Inl (TransactionError (BookingWindowClosed c))
                            else Inr ())
              | _ \<Rightarrow> Inl (TransactionError (InvalidStop (trip_id dbTrip))))))"

text \<open>\<^verbatim>\<open>export const checkValidTripStop = checkStopsAndBookingWindow(false)\<close>: already the
  function of \<^verbatim>\<open>(dbTrip, rqTrip)\<close>; its \<^verbatim>\<open>now\<close> is never read.\<close>

definition checkValidTripStop ::
  "'a trip_scheme option \<Rightarrow> 'b trip_order_scheme option \<Rightarrow> error + unit" where
  "checkValidTripStop = checkStopsAndBookingWindow False 0"

text \<open>\<^verbatim>\<open>checkValidBookingWindow = (...args) => checkStopsAndBookingWindow(true, ...args)\<close>:
  called without arguments it takes \<^verbatim>\<open>Date.now()\<close> at the call, passed here as \<open>now\<close>.\<close>

definition checkValidBookingWindow ::
  "rat \<Rightarrow> 'a trip_scheme option \<Rightarrow> 'b trip_order_scheme option \<Rightarrow> error + unit" where
  "checkValidBookingWindow now = checkStopsAndBookingWindow True now"

text \<open>\<^verbatim>\<open>checkNoDuplicates()(dbTrip, rqTrip)\<close>: the first ticket, over the stops in order,
  that is valid or pending and belongs to the requesting user.\<close>

definition checkNoDuplicates ::
  "'a trip_scheme option \<Rightarrow> 'b trip_order_scheme \<Rightarrow> error + unit" where
  "checkNoDuplicates dbTripArg rqTrip =
     (case dbTripArg of
        None \<Rightarrow> Inl TypeError
      | Some dbTrip \<Rightarrow>
         (case List.find
                 (\<lambda>tk. (ticket_status tk = ''valid'' \<or> ticket_status tk = ''pending'')
                        \<and> ticket_userId tk = userId rqTrip)
                 (concat (map stop_tickets (tripStops dbTrip))) of
            Some existingTicketFromUser \<Rightarrow>
              Inl (TransactionError
                     (DuplicateTicket (userId rqTrip) (ticket_id existingTicketFromUser)))
          | None \<Rightarrow> Inr ()))"

section \<open>The transaction builder\<close>

text \<open>A line of the builder is a transaction item; a discount line also carries its
  \<^verbatim>\<open>discount\<close> object.  Of that object the model keeps the description, the code and
  the two per-ticket maps (the remaining keys of the source are \<^verbatim>\<open>null\<close>).\<close>

record discount_info =
  description :: string
  code :: string
  discountAmounts :: "nat \<rightharpoonup> rat"
  refundAmounts :: "nat \<rightharpoonup> rat"

record line = txn_item +
  discount :: "discount_info option"

text \<open>Modelled from the spec: the state of the \<^verbatim>\<open>TransactionBuilder\<close> (missing:
  \<^verbatim>\<open>./builder\<close>), of which the functions below read \<^verbatim>\<open>items\<close>,
  \<^verbatim>\<open>transactionItemsByType\<close>, \<^verbatim>\<open>tripsById\<close> and \<^verbatim>\<open>lineItems\<close>.  An element of
  \<^verbatim>\<open>tb.items\<close> in a ticket sale holds the ticket it sells
  (\<^verbatim>\<open>item.ticket.id\<close>, \<^verbatim>\<open>ticket.notes.discountValue\<close>) and what is still to pay for it
  (\<^verbatim>\<open>item.transactionItem.notes.outstanding\<close>).\<close>

record sale_item =
  item_ticketId :: nat
  item_outstanding :: rat
  item_discountValue :: rat

record builder =
  items :: "sale_item list"
  transactionItemsByType :: "string \<rightharpoonup> line list"
  tripsById :: "(nat \<times> trip) list"
  lineItems :: "trip_order list"

record check_options =
  ensureAvailability :: bool
  noDuplicates :: bool
  bookingWindow :: bool

section \<open>runOrderChecks\<close>

text \<open>The first loop: \<^verbatim>\<open>_(tripsById).each((trip, tripId) => assert(trip.isRunning))\<close>.\<close>

fun checkRunning :: "(nat \<times> trip) list \<Rightarrow> error + unit" where
  "checkRunning [] = Inr ()"
| "checkRunning ((tid, t) # rest) =
     (if isRunning t then checkRunning rest else Inl (TransactionError (TripCancelled tid)))"

text \<open>The body of the second loop for one order.  \<open>now\<close> is \<^verbatim>\<open>Date.now()\<close> at the
  moment \<^verbatim>\<open>checkValidBookingWindow()\<close> is called.  In the other branch the source
  writes \<^verbatim>\<open>checkValidTripStop()(dbTrip, tripOrder)\<close>: it first calls
  \<^verbatim>\<open>checkValidTripStop\<close> with no arguments, that is with \<^verbatim>\<open>dbTrip\<close> and \<^verbatim>\<open>rqTrip\<close>
  undefined, and would then call the result (\<^verbatim>\<open>undefined\<close>, a TypeError) on the
  trip and the order.\<close>

definition checkOrder ::
  "rat \<Rightarrow> (nat \<times> trip) list \<Rightarrow> check_options \<Rightarrow> trip_order \<Rightarrow> error + unit" where
  "checkOrder now trips checkOptions tripOrder =
     (let dbTrip = map_of trips (tripId tripOrder);
          stops =
            (if bookingWindow checkOptions
             then checkValidBookingWindow now dbTrip (Some tripOrder)
             else (case checkValidTripStop (None :: trip option) (None :: trip_order option) of
                     Inl e \<Rightarrow> Inl e
                   | Inr u \<Rightarrow> Inl TypeError))
      in case stops of
           Inl e \<Rightarrow> Inl e
         | Inr u \<Rightarrow>
             if noDuplicates checkOptions then checkNoDuplicates dbTrip tripOrder else Inr ())"

text \<open>The second loop; \<open>clock i\<close> is the time at which order number \<open>i\<close> is checked.\<close>

fun checkOrders ::
  "(nat \<Rightarrow> rat) \<Rightarrow> nat \<Rightarrow> (nat \<times> trip) list \<Rightarrow> check_options \<Rightarrow> trip_order list
     \<Rightarrow> error + unit" where
  "checkOrders clock i trips checkOptions [] = Inr ()"
| "checkOrders clock i trips checkOptions (tripOrder # rest) =
     (case checkOrder (clock i) trips checkOptions tripOrder of
        Inl e \<Rightarrow> Inl e
      | Inr u \<Rightarrow> checkOrders clock (Suc i) trips checkOptions rest)"

text \<open>\<^verbatim>\<open>_(tripsById).values().map(v => v.transportCompanyId).uniq().size()\<close>.\<close>

definition companyCount :: "(nat \<times> trip) list \<Rightarrow> nat" where
  "companyCount trips = length (remdups (map (\<lambda>(tid, t). transportCompanyId t) trips))"

definition runOrderChecks ::
  "(nat \<Rightarrow> rat) \<Rightarrow> 'a builder_scheme \<Rightarrow> check_options \<Rightarrow> error + unit" where
  "runOrderChecks clock tb checkOptions =
     (case checkRunning (tripsById tb) of
        Inl e \<Rightarrow> Inl e
      | Inr u \<Rightarrow>
         (case checkOrders clock 0 (tripsById tb) checkOptions (lineItems tb) of
            Inl e \<Rightarrow> Inl e
          | Inr u \<Rightarrow>
              if companyCount (tripsById tb) = 1 then Inr ()
              else Inl (TransactionError MultipleCompanies)))"

section \<open>checkExpectedPrice\<close>

text \<open>\<^verbatim>\<open>checkExpectedPrice(tb, price)\<close>.  Only \<^verbatim>\<open>null\<close> skips the check.  Reading
  \<^verbatim>\<open>[0]\<close> of a missing \<^verbatim>\<open>payment\<close> group is a TypeError; of an empty group it is
  \<^verbatim>\<open>undefined\<close>, and the source then compares with 0.\<close>

definition checkExpectedPrice :: "'a builder_scheme \<Rightarrow> jsval \<Rightarrow> error + unit" where
  "checkExpectedPrice tb price =
     (if price = JNull then Inr ()
      else
        (case transactionItemsByType tb ''payment'' of
           None \<Rightarrow> Inl TypeError
         | Some payments \<Rightarrow>
             (let paid = (case payments of
                            [] \<Rightarrow> parseFloat (JNum 0)
                          | paymentItem # rest \<Rightarrow> parseFloat (debit paymentItem))
              in if flt (fabs (fsub (parseFloat price) paid)) (roundDouble (1 / 1000))
                 then Inr ()
                 else Inl (TransactionError PriceChanged))))"

section \<open>absorbSmallPayments\<close>

text \<open>The helpers of \<^verbatim>\<open>./builder\<close> are not among the sources; the definitions
  marked as modelled from the spec stand for them.\<close>

text \<open>Modelled from the spec: the number a builder line's amount denotes, for
  \<^verbatim>\<open>TransactionBuilder._excessCredit\<close> (missing: \<^verbatim>\<open>./builder\<close>).  A missing amount
  counts 0.\<close>

definition amountOf :: "jsval \<Rightarrow> rat" where
  "amountOf v = (case parseFloat v of Fin r \<Rightarrow> r | _ \<Rightarrow> 0)"

definition itemTypes :: "string list" where
  "itemTypes =
     [''ticketSale'', ''ticketRefund'', ''routePass'', ''discount'', ''payment'',
      ''transfer'', ''account'']"

definition linesOf :: "(string \<rightharpoonup> line list) \<Rightarrow> string \<Rightarrow> line list" where
  "linesOf byType ty = (case byType ty of None \<Rightarrow> [] | Some ls \<Rightarrow> ls)"

text \<open>Modelled from the spec: \<^verbatim>\<open>TransactionBuilder._excessCredit\<close> (missing:
  \<^verbatim>\<open>./builder\<close>), ``\<^verbatim>\<open>\<Sigma> credit - \<Sigma> debit\<close> across all items'', over the item types
  of the data model.\<close>

definition excessCredit :: "'a builder_scheme \<Rightarrow> rat" where
  "excessCredit tb =
     (\<Sum>ty\<leftarrow>itemTypes. \<Sum>l\<leftarrow>linesOf (transactionItemsByType tb) ty.
        amountOf (credit l) - amountOf (debit l))"

text \<open>Modelled from the spec: \<^verbatim>\<open>outstandingAmounts\<close> (missing: \<^verbatim>\<open>./builder\<close>), ``each
  ticket's current outstanding amount'', in the order of the items.\<close>

definition outstandingAmounts :: "sale_item list \<Rightarrow> rat list" where
  "outstandingAmounts its = map item_outstanding its"

text \<open>Modelled from the spec: \<^verbatim>\<open>updateTicketsWithDiscounts\<close> (missing: \<^verbatim>\<open>./builder\<close>):
  ``for each affected ticket, subtracts the per-item allocation from its outstanding
  amount and updates its \<^verbatim>\<open>notes.discountValue\<close> cumulatively''.\<close>

fun updateTicketsWithDiscounts :: "sale_item list \<Rightarrow> string \<Rightarrow> rat list \<Rightarrow> sale_item list" where
  "updateTicketsWithDiscounts (it # its) tag (a # as) =
     it\<lparr>item_outstanding := item_outstanding it - a,
        item_discountValue := item_discountValue it + a\<rparr>
       # updateTicketsWithDiscounts its tag as"
| "updateTicketsWithDiscounts its tag as = its"

text \<open>\<^verbatim>\<open>_.fromPairs\<close>: a later pair replaces an earlier one with the same key.\<close>

definition fromPairs :: "('k \<times> 'v) list \<Rightarrow> ('k \<rightharpoonup> 'v)" where
  "fromPairs ps = map_of (rev ps)"

text \<open>\<^verbatim>\<open>absorbSmallPayments(tb)\<close>, with \<^verbatim>\<open>Payment.minTransactionChargeInCents()\<close> as a
  parameter; the product \<^verbatim>\<open>excess * 100\<close> is a product of doubles.
  \<^verbatim>\<open>new TransactionBuilder(tb)\<close> copies the builder; in a model of values the copy is the
  value itself.\<close>

definition absorbSmallPayments :: "rat \<Rightarrow> builder \<Rightarrow> builder" where
  "absorbSmallPayments minTransactionChargeInCents tb =
     (let excess = excessCredit tb in
      if excess > 0 \<and> fle (fmul (Fin excess) 100) (Fin minTransactionChargeInCents) then
        (let clone = tb;
             outstandingAmountsList = outstandingAmounts (items clone);
             outstandingAmountsById =
               fromPairs (zip (map item_ticketId (items clone)) outstandingAmountsList);
             updated =
               updateTicketsWithDiscounts (items clone) ''[absorb-small-payments]''
                 outstandingAmountsList
         in clone
              \<lparr>items := updated,
               transactionItemsByType :=
                 (transactionItemsByType clone)
                   (''discount'' \<mapsto>
                      linesOf (transactionItemsByType clone) ''discount'' @
                        [\<lparr>itemType = ''discount'', itemId = JUndefined, debit = JNum excess,
                          credit = JUndefined,
                          discount = Some
                            \<lparr>description = ''Transaction fee absorbed'', code = [],
                             discountAmounts = outstandingAmountsById,
                             refundAmounts = outstandingAmountsById\<rparr>\<rparr>])\<rparr>)
      else tb)"

section \<open>Refunds\<close>

text \<open>The payment gateway module \<^verbatim>\<open>../transactions/payment\<close> is not among the sources;
  the functions of it that the refund code calls are parameters.  \<open>'s\<close> is the type of
  a charge's \<^verbatim>\<open>source\<close>.\<close>

record 's charge =
  charge_id :: string
  amount :: rat
  amount_refunded :: rat
  source :: 's

record 's payment_module =
  retrieveCharge :: "jsval \<Rightarrow> error + 's charge"
  isLocalAndNonAmex :: "'s \<Rightarrow> bool"
  calculateAdminFeeInCents :: "fnum \<Rightarrow> bool option \<Rightarrow> bool \<Rightarrow> fnum"

text \<open>A row of the Payment table: \<^verbatim>\<open>paymentResource\<close> and \<^verbatim>\<open>options.isMicro\<close>
  (\<open>None\<close> when \<^verbatim>\<open>options\<close> or the flag is missing).\<close>

record payment_row =
  paymentResource :: jsval
  payment_isMicro :: "bool option"

record 's refund_info =
  processingFee :: fnum
  info_charge :: "'s charge"
  info_isMicro :: "bool option"
  balanceAmtCents :: fnum
  info_amount :: fnum
  idempotencyKey :: string

text \<open>\<^verbatim>\<open>generateRefundInfo(paymentItem, amount, isMicro, idempotencyKey)\<close>, every
  operation on doubles: the balance, the product \<^verbatim>\<open>amount * 100\<close> (computed twice by the
  source, with the same result), its rounding by \<^verbatim>\<open>Math.round\<close>, the bound
  \<^verbatim>\<open>amount * 100 - 0.1\<close>, the updated balance, and the fee difference divided by 100.\<close>

definition generateRefundInfo ::
  "'s payment_module \<Rightarrow> payment_row option \<Rightarrow> fnum \<Rightarrow> bool option \<Rightarrow> string
     \<Rightarrow> error + 's refund_info" where
  "generateRefundInfo P paymentItem amt isMicro key =
     (case paymentItem of
        None \<Rightarrow> Inl TypeError
      | Some pay \<Rightarrow>
         (case retrieveCharge P (paymentResource pay) of
            Inl e \<Rightarrow> Inl e
          | Inr ch \<Rightarrow>
             (let balance = fsub (Fin (amount ch)) (Fin (amount_refunded ch));
                  refundAmtCents = fround (fmul amt 100);
                  local = isLocalAndNonAmex P (source ch)
              in if \<not> fge balance (fsub (fmul amt 100) (roundDouble (1 / 10)))
                 then Inl (TransactionError RefundExceedsPaid)
                 else
                   (let updatedBalance = fsub balance refundAmtCents
                    in Inr \<lparr>processingFee =
                               fdiv (fsub (calculateAdminFeeInCents P balance isMicro local)
                                          (calculateAdminFeeInCents P updatedBalance isMicro local))
                                    100,
                             info_charge = ch,
                             info_isMicro = isMicro,
                             balanceAmtCents = balance,
                             info_amount = amt,
                             idempotencyKey = key\<rparr>))))"

text \<open>Decimal rendering of a database key inside a template literal.\<close>

definition digitChar :: "nat \<Rightarrow> char" where
  "digitChar k = ''0123456789'' ! k"

fun showNat :: "nat \<Rightarrow> string" where
  "showNat n =
     (if n < 10 then [digitChar n]
      else showNat (n div 10) @ [digitChar (n mod 10)])"

declare showNat.simps [simp del]

text \<open>What the refund workflows read from the database and from the authorisation
  collaborator.  An amount is given by the double the source computes with (for a DECIMAL
  column, the number its string converts to).\<close>

record ticket_row =
  tk_id :: nat
  tk_status :: string
  tk_discountValue :: "rat option"

record related_item =
  ri_itemType :: string
  ri_itemId :: nat
  ri_debit :: rat
  ri_isMicro :: "bool option"

record sale_row =
  sale_credit :: rat
  sale_transactionId :: nat
  relatedTIs :: "related_item list"

record refund_request =
  targetAmt :: rat
  ticketId :: nat

record refund_db =
  db_ticket :: "ticket_row option"
  db_company :: "nat option"
  db_authorised :: bool
  db_ticketSale :: "sale_row option"
  db_refundTI :: "rat list"
  db_payment :: "payment_row option"

text \<open>A recorded undo function.  Both refund workflows record a closure that sets the
  status of the refunded entity.\<close>

datatype undo_op = UpdateStatus string

fun runUndo :: "undo_op \<Rightarrow> string \<Rightarrow> string" where
  "runUndo (UpdateStatus st) current = st"

text \<open>The line a refund puts in the builder, with \<^verbatim>\<open>notes.refundedTransactionId\<close>.\<close>

record refund_line =
  rl_itemType :: string
  rl_itemId :: nat
  rl_debit :: fnum
  rl_refundedTransactionId :: nat

text \<open>What a refund workflow has prepared when it hands the builder to
  \<^verbatim>\<open>Payment.refund\<close> and \<^verbatim>\<open>build\<close> (neither is among the sources): the builder's
  line, the status written to the entity, the recorded undo functions and the refund
  information for the gateway.\<close>

record 's prepared_refund =
  pr_lines :: "refund_line list"
  pr_status :: string
  pr_undoFunctions :: "undo_op list"
  pr_refundInfo :: "'s refund_info"

text \<open>\<^verbatim>\<open>prepareTicketRefund(options)\<close>; \<open>env\<close> is \<^verbatim>\<open>process.env.TEST_IDEMPOTENCY\<close> as
  the template literal renders it.\<close>

definition prepareTicketRefund ::
  "'s payment_module \<Rightarrow> string \<Rightarrow> refund_db \<Rightarrow> refund_request \<Rightarrow> error + 's prepared_refund" where
  "prepareTicketRefund P env db rq =
     (if targetAmt rq = 0 \<or> ticketId rq = 0 then Inl AssertionError
      else case db_ticket db of
        None \<Rightarrow> Inl TypeError
      | Some tk \<Rightarrow>
          if \<not> (tk_status tk = ''valid'' \<or> tk_status tk = ''void'')
          then Inl (TransactionError NonValidTicket)
          else case db_company db of
            None \<Rightarrow> Inl TypeError
          | Some companyId \<Rightarrow>
              if \<not> db_authorised db then Inl ExternalError
              else case db_ticketSale db of
                None \<Rightarrow> Inl (TransactionError TicketNotSold)
              | Some ticketSale \<Rightarrow>
                 (case filter (\<lambda>ti. ri_itemType ti = ''payment'') (relatedTIs ticketSale) of
                    [] \<Rightarrow> Inl AssertionError
                  | payment # others \<Rightarrow>
                      if others \<noteq> [] then Inl AssertionError
                      else if \<not> ri_debit payment > 0
                      then Inl (TransactionError NoPaymentMade)
                      else
                        (let previouslyRefunded = sumF (map Fin (db_refundTI db));
                             priceAfterDiscount =
                               fsub (Fin (sale_credit ticketSale))
                                 (Fin (case tk_discountValue tk of None \<Rightarrow> 0 | Some d \<Rightarrow> d))
                         in if \<not> flt (fabs (fsub (Fin (targetAmt rq)) priceAfterDiscount))
                                      (roundDouble (1 / 10000))
                            then Inl (TransactionError RefundNotTicketValue)
                            else
                              (let possibleRefundAmt = fsub priceAfterDiscount previouslyRefunded
                               in if \<not> fge possibleRefundAmt (Fin (targetAmt rq))
                                  then Inl (TransactionError RefundExceedsAllowed)
                                  else
                                    (case generateRefundInfo P (db_payment db)
                                            (Fin (targetAmt rq))
                                            (ri_isMicro (hd (relatedTIs ticketSale)))
                                            (''Refund:instance='' @ env @ '',ticketId=''
                                               @ showNat (tk_id tk)) of
                                       Inl e \<Rightarrow> Inl e
                                     | Inr stripeRefundInfo \<Rightarrow>
                                         Inr \<lparr>pr_lines =
                                                [\<lparr>rl_itemType = ''ticketRefund'',
                                                  rl_itemId = tk_id tk,
                                                  rl_debit = Fin (targetAmt rq),
                                                  rl_refundedTransactionId =
                                                    sale_transactionId ticketSale\<rparr>],
                                              pr_status = ''refunded'',
                                              pr_undoFunctions = [UpdateStatus ''valid''],
                                              pr_refundInfo = stripeRefundInfo\<rparr>)))))"

text \<open>\<^verbatim>\<open>prepareRoutePassRefund(options)(transaction)\<close>.  A \<^verbatim>\<open>null\<close> debit (\<open>None\<close>)
  compares as 0 in \<^verbatim>\<open>transactionItem.debit <= 0\<close>.\<close>

record route_pass =
  rp_id :: nat
  rp_status :: string
  rp_discountValue :: "rat option"
  rp_companyId :: nat

record purchase_item =
  pi_itemId :: nat
  pi_debit :: "rat option"
  pi_credit :: rat
  pi_transactionId :: nat

record route_pass_refund_db =
  rdb_paymentItem :: "related_item option"
  rdb_payment :: "payment_row option"

definition prepareRoutePassRefund ::
  "'s payment_module \<Rightarrow> string \<Rightarrow> route_pass_refund_db \<Rightarrow> purchase_item \<Rightarrow> route_pass
     \<Rightarrow> error + 's prepared_refund" where
  "prepareRoutePassRefund P env db transactionItem routePass =
     (if pi_itemId transactionItem \<noteq> rp_id routePass
      then Inl (TransactionError ItemNotOfRoutePass)
      else if \<not> (case pi_debit transactionItem of None \<Rightarrow> True | Some d \<Rightarrow> d \<le> 0)
      then Inl (TransactionError ItemHasDebit)
      else if \<not> (rp_status routePass = ''valid'' \<or> rp_status routePass = ''void''
                 \<or> rp_status routePass = ''expired'')
      then Inl (TransactionError (RoutePassNotRefundable (rp_status routePass)))
      else
        (let priceAfterDiscount =
               fsub (Fin (pi_credit transactionItem))
                 (Fin (case rp_discountValue routePass of None \<Rightarrow> 0 | Some d \<Rightarrow> d))
         in case rdb_paymentItem db of
              None \<Rightarrow> Inl TypeError
            | Some paymentItem \<Rightarrow>
               (case rdb_payment db of
                  None \<Rightarrow> Inl TypeError
                | Some payment \<Rightarrow>
                   (case generateRefundInfo P (Some payment) priceAfterDiscount
                           (payment_isMicro payment)
                           (''Refund:instance='' @ env @ '',routePassId=''
                              @ showNat (rp_id routePass)) of
                      Inl e \<Rightarrow> Inl e
                    | Inr stripeRefundInfo \<Rightarrow>
                       (let lastStatus = rp_status routePass
                        in Inr \<lparr>pr_lines =
                                  [\<lparr>rl_itemType = ''routePass'',
                                    rl_itemId = rp_id routePass,
                                    rl_debit = priceAfterDiscount,
                                    rl_refundedTransactionId =
                                      pi_transactionId transactionItem\<rparr>],
                                pr_status = ''refunded'',
                                pr_undoFunctions = [UpdateStatus lastStatus],
                                pr_refundInfo = stripeRefundInfo\<rparr>)))))"

section \<open>chargeSale\<close>

text \<open>The persisted transaction as \<^verbatim>\<open>chargeSale\<close> reads it: of each item its type, its
  debit, and the identifiers of the joined \<^verbatim>\<open>transfer\<close> and \<^verbatim>\<open>payment\<close> rows (\<open>None\<close>
  when the item has no such row).\<close>

record sale_line =
  sl_itemType :: string
  sl_debit :: jsval
  sl_transferCompanyId :: "nat option"
  sl_paymentId :: "nat option"

record sale_transaction =
  st_id :: nat
  st_items :: "sale_line list"

record company_info =
  smsOpCode :: "string option"
  company_name :: "string option"
  clientId :: "string option"
  sandboxId :: "string option"

text \<open>The options of \<^verbatim>\<open>chargeSale\<close>.  \<^verbatim>\<open>options.models\<close> and
  \<^verbatim>\<open>options.transaction\<close> are taken to be there: without them the \<^verbatim>\<open>catch\<close> block
  itself cannot run.\<close>

record charge_options =
  co_transaction :: sale_transaction
  tokenIat :: nat
  paymentDescription :: "string option"
  stripeToken :: "string option"
  customerId :: "string option"
  sourceId :: "string option"

text \<open>A string option of the source is truthy when it is there and not empty.\<close>

definition present :: "string option \<Rightarrow> bool" where
  "present v = (case v of None \<Rightarrow> False | Some s \<Rightarrow> s \<noteq> [])"

record charge_request =
  cr_value :: jsval
  cr_description :: string
  cr_statement_descriptor :: string
  cr_destination :: string
  cr_idempotencyKey :: string
  cr_customer :: "string option"
  cr_source :: string

record charge_result =
  cres_id :: "string option"
  cres_amount :: "rat option"

datatype payment_update =
    ChargeStored "string option" charge_result bool
      \<comment> \<open>\<^verbatim>\<open>{paymentResource, data: chargeResult, options: {isMicro}}\<close>\<close>
  | ErrorStored error
      \<comment> \<open>\<^verbatim>\<open>{data: error}\<close>\<close>

datatype effect =
    ChargeCard charge_request
  | PaymentUpdate nat payment_update

text \<open>What \<^verbatim>\<open>chargeSale\<close> is run against: the gateway's \<^verbatim>\<open>chargeCard\<close> and
  \<^verbatim>\<open>isMicro\<close>, \<^verbatim>\<open>m.TransportCompany.findById\<close>, the launch-time flag
  \<^verbatim>\<open>stripeIsLive\<close> and \<^verbatim>\<open>process.env.TEST_IDEMPOTENCY\<close> as rendered.\<close>

record charge_env =
  chargeCard :: "charge_request \<Rightarrow> error + charge_result"
  isMicro :: "rat option \<Rightarrow> bool"
  findCompany :: "nat \<Rightarrow> company_info option"
  stripeIsLive :: bool
  testIdempotency :: string

text \<open>The characters the regular expression \<^verbatim>\<open>/[<>"']/g\<close> removes.\<close>

definition forbiddenChar :: "char \<Rightarrow> bool" where
  "forbiddenChar c = (c = CHR ''<'' \<or> c = CHR ''>'' \<or> c = CHR 0x22 \<or> c = CHR 0x27)"

text \<open>The statement descriptor: the template literal
  \<^verbatim>\<open>`${companyDescriptor.substr(0, 10)},Ref#${transaction.id}`\<close>, then
  \<^verbatim>\<open>.replace(/[<>"']/g, "")\<close>, then \<^verbatim>\<open>.substr(0, 22)\<close>.\<close>

definition statementDescriptor :: "string \<Rightarrow> nat \<Rightarrow> string" where
  "statementDescriptor companyDescriptor txId =
     take 22 (filter (\<lambda>c. \<not> forbiddenChar c)
                (take 10 companyDescriptor @ '',Ref#'' @ showNat txId))"

text \<open>\<^verbatim>\<open>companyInfo.smsOpCode || companyInfo.name\<close>; \<open>None\<close> when the result is
  \<^verbatim>\<open>null\<close>, on which \<^verbatim>\<open>.substr\<close> throws a TypeError.\<close>

definition companyDescriptorOf :: "company_info \<Rightarrow> string option" where
  "companyDescriptorOf companyInfo =
     (if present (smsOpCode companyInfo) then smsOpCode companyInfo
      else company_name companyInfo)"

text \<open>\<^verbatim>\<open>_.groupBy(transaction.transactionItems, "itemType")[ty]\<close>: \<open>None\<close> when no item
  has the type.\<close>

definition txnGroup :: "sale_transaction \<Rightarrow> string \<Rightarrow> sale_line list option" where
  "txnGroup t ty =
     (case filter (\<lambda>l. sl_itemType l = ty) (st_items t) of [] \<Rightarrow> None | ls \<Rightarrow> Some ls)"

text \<open>The three-way branch that charges the card.  \<open>request\<close> holds the fields common
  to both calls of \<^verbatim>\<open>Payment.chargeCard\<close>.  When no branch is taken \<^verbatim>\<open>chargeResult\<close>
  stays \<^verbatim>\<open>undefined\<close> and reading its \<^verbatim>\<open>id\<close> throws.\<close>

definition chargeStep ::
  "charge_env \<Rightarrow> charge_options \<Rightarrow> jsval \<Rightarrow> charge_request
     \<Rightarrow> effect list \<times> (error + charge_result)" where
  "chargeStep E options paymentValue request =
     (if paymentValue = JStr ''0.00''
      then ([], Inr \<lparr>cres_id = None, cres_amount = None\<rparr>)
      else if present (stripeToken options)
      then (let rq = request\<lparr>cr_source := the (stripeToken options)\<rparr>
            in ([ChargeCard rq], chargeCard E rq))
      else if present (customerId options) \<and> present (sourceId options)
      then (let rq = request\<lparr>cr_customer := customerId options,
                             cr_source := the (sourceId options)\<rparr>
            in ([ChargeCard rq], chargeCard E rq))
      else ([], Inl TypeError))"

text \<open>\<^verbatim>\<open>m.Payment.update\<close> with the charge result, for the row of the payment item.\<close>

definition storeCharge ::
  "charge_env \<Rightarrow> sale_line \<Rightarrow> effect list \<times> (error + charge_result)
     \<Rightarrow> effect list \<times> (error + unit)" where
  "storeCharge E paymentLine step =
     (case step of
        (calls, Inl e) \<Rightarrow> (calls, Inl e)
      | (calls, Inr chargeResult) \<Rightarrow>
         (case sl_paymentId paymentLine of
            None \<Rightarrow> (calls, Inl TypeError)
          | Some paymentId \<Rightarrow>
              (calls @
                 [PaymentUpdate paymentId
                    (ChargeStored (cres_id chargeResult) chargeResult
                       (isMicro E (cres_amount chargeResult)))],
               Inr ())))"

text \<open>Everything the \<^verbatim>\<open>try\<close> block checks and computes before it charges: the payment
  item and the request, or the error thrown.\<close>

definition chargePreamble ::
  "charge_env \<Rightarrow> charge_options \<Rightarrow> error + (sale_line \<times> charge_request)" where
  "chargePreamble E options =
     (let t = co_transaction options in
      if \<not> present (paymentDescription options) then Inl AssertionError
      else if \<not> (present (stripeToken options)
                  \<or> (present (customerId options) \<and> present (sourceId options)))
      then Inl AssertionError
      else case txnGroup t ''payment'' of
        None \<Rightarrow> Inl TypeError
      | Some payments \<Rightarrow>
          if length payments \<noteq> 1 then Inl AssertionError
          else case txnGroup t ''transfer'' of
            None \<Rightarrow> Inl TypeError
          | Some transfers \<Rightarrow>
              if length transfers \<noteq> 1 then Inl AssertionError
              else case sl_transferCompanyId (hd transfers) of
                None \<Rightarrow> Inl TypeError
              | Some busCompanyId \<Rightarrow>
                 (case findCompany E busCompanyId of
                    None \<Rightarrow> Inl AssertionError
                  | Some companyInfo \<Rightarrow>
                     (let stripeCompanyId =
                            (if stripeIsLive E then clientId companyInfo
                             else sandboxId companyInfo)
                      in if \<not> present stripeCompanyId then Inl AssertionError
                         else case companyDescriptorOf companyInfo of
                           None \<Rightarrow> Inl TypeError
                         | Some companyDescriptor \<Rightarrow>
                             Inr (hd payments,
                                  \<lparr>cr_value = sl_debit (hd payments),
                                   cr_description = the (paymentDescription options),
                                   cr_statement_descriptor =
                                     statementDescriptor companyDescriptor (st_id t),
                                   cr_destination = the stripeCompanyId,
                                   cr_idempotencyKey =
                                     ''instance='' @ testIdempotency E @ '',bookingId=''
                                       @ showNat (st_id t) @ '',session=''
                                       @ showNat (tokenIat options),
                                   cr_customer = None,
                                   cr_source = []\<rparr>))))"

text \<open>The body of the \<^verbatim>\<open>try\<close> block: the gateway calls and row updates made, in order,
  and how the block ends.\<close>

definition chargeSaleTry :: "charge_env \<Rightarrow> charge_options \<Rightarrow> effect list \<times> (error + unit)" where
  "chargeSaleTry E options =
     (case chargePreamble E options of
        Inl e \<Rightarrow> ([], Inl e)
      | Inr (paymentLine, request) \<Rightarrow>
          storeCharge E paymentLine (chargeStep E options (sl_debit paymentLine) request))"

text \<open>\<^verbatim>\<open>chargeSale(options)\<close>: the \<^verbatim>\<open>try\<close> block, and on any error the \<^verbatim>\<open>catch\<close>
  block, which stores the error in the Payment row of the first payment item and throws
  a \<^verbatim>\<open>ChargeError\<close>; when there is no such item or row, reading it throws a TypeError
  in its turn.\<close>

definition chargeSale :: "charge_env \<Rightarrow> charge_options \<Rightarrow> effect list \<times> (error + unit)" where
  "chargeSale E options =
     (case chargeSaleTry E options of
        (effects, Inr u) \<Rightarrow> (effects, Inr u)
      | (effects, Inl e) \<Rightarrow>
         (case txnGroup (co_transaction options) ''payment'' of
            None \<Rightarrow> (effects, Inl TypeError)
          | Some payments \<Rightarrow>
             (case sl_paymentId (hd payments) of
                None \<Rightarrow> (effects, Inl TypeError)
              | Some paymentId \<Rightarrow>
                  (effects @ [PaymentUpdate paymentId (ErrorStored e)], Inl ChargeError))))"

section \<open>Reference definitions and example data\<close>

text \<open>A transaction with a single item, a debit of \<^verbatim>\<open>0.000001\<close>.\<close>

definition boundaryTxn :: txn where
  "boundaryTxn = \<lparr>transactionItems = Some
     [\<lparr>itemType = ''payment'', itemId = JNum 1, debit = JNum (dbl (1 / 1000000)),
       credit = JNull\<rparr>]\<rparr>"

text \<open>A transaction whose second debit is no number: the sum is \<^verbatim>\<open>NaN\<close>.\<close>

definition unreadableTxn :: txn where
  "unreadableTxn = \<lparr>transactionItems = Some
     [\<lparr>itemType = ''payment'', itemId = JNum 1, debit = JNum 9, credit = JNull\<rparr>,
      \<lparr>itemType = ''account'', itemId = JNum 2, debit = JStr ''abc'', credit = JNull\<rparr>]\<rparr>"

text \<open>A transaction whose amounts are \<^verbatim>\<open>1e16\<close>, 1 and minus \<^verbatim>\<open>1e16\<close>: exactly they
  add up to 1, as doubles from left to right to 0.\<close>

definition absorbedTxn :: txn where
  "absorbedTxn = \<lparr>transactionItems = Some
     [\<lparr>itemType = ''payment'', itemId = JNum 1, debit = JNum 10000000000000000,
       credit = JNull\<rparr>,
      \<lparr>itemType = ''account'', itemId = JNum 2, debit = JNum 1, credit = JNull\<rparr>,
      \<lparr>itemType = ''transfer'', itemId = JNum 3, debit = JNull,
       credit = JNum 10000000000000000\<rparr>]\<rparr>"

text \<open>A transaction that adds up to zero and has an item without \<^verbatim>\<open>itemId\<close>.\<close>

definition unlinkedTxn :: txn where
  "unlinkedTxn = \<lparr>transactionItems = Some
     [\<lparr>itemType = ''payment'', itemId = JNull, debit = JNum 5, credit = JNull\<rparr>,
      \<lparr>itemType = ''transfer'', itemId = JNum 2, debit = JNull, credit = JNum 5\<rparr>]\<rparr>"

text \<open>The cut-off of the booking window in the words of the specification: the minimum
  over all stop times for \<^verbatim>\<open>firstStop\<close>, the minimum of the boarding and the alighting
  stop's time otherwise, plus the window size.\<close>

definition stopWithId :: "nat \<Rightarrow> trip_stop list \<Rightarrow> trip_stop option" where
  "stopWithId sid stops = List.find (\<lambda>ts. stop_id ts = sid) stops"

definition specCutoff :: "'a trip_scheme \<Rightarrow> 'b trip_order_scheme \<Rightarrow> rat" where
  "specCutoff dbTrip rqTrip =
     (let W = windowSize (effectiveBookingInfo dbTrip) in
      if windowType (effectiveBookingInfo dbTrip) = ''firstStop''
      then Min (stop_time ` set (tripStops dbTrip)) + W
      else min (stop_time (the (stopWithId (boardStopId rqTrip) (tripStops dbTrip))))
               (stop_time (the (stopWithId (alightStopId rqTrip) (tripStops dbTrip)))) + W)"

definition exampleTrip :: trip where
  "exampleTrip =
     \<lparr>trip_id = 7, isRunning = True, transportCompanyId = 1,
      tripStops =
        [\<lparr>stop_id = 1, stop_time = 1000, stop_tickets = []\<rparr>,
         \<lparr>stop_id = 2, stop_time = 2000, stop_tickets = []\<rparr>],
      bookingInfo = Some \<lparr>raw_windowType = Given ''stop'', raw_windowSize = Given (- 300)\<rparr>\<rparr>"

definition exampleOrder :: trip_order where
  "exampleOrder = \<lparr>tripId = 7, boardStopId = 1, alightStopId = 2, userId = 5\<rparr>"

text \<open>The statement descriptor in the words of the specification: the forbidden
  characters are dropped from the company descriptor first, then its first ten characters
  are taken.\<close>

definition specDescriptor :: "string \<Rightarrow> nat \<Rightarrow> string" where
  "specDescriptor companyDescriptor txId =
     take 22 (take 10 (filter (\<lambda>c. \<not> forbiddenChar c) companyDescriptor)
                @ '',Ref#'' @ showNat txId)"

text \<open>A company name with an apostrophe among its first ten characters.\<close>

definition quotedName :: string where
  "quotedName = ''Joe'' @ [CHR 0x27] @ ''s Travel and Tours''"

text \<open>The builder after a sale of two tickets for 5.00 and 10.00 has been finalised:
  its payment line, as the database returns it.\<close>

definition twoTicketSale :: builder where
  "twoTicketSale =
     \<lparr>items = [],
      transactionItemsByType =
        [''payment'' \<mapsto>
           [\<lparr>itemType = ''payment'', itemId = JNum 1, debit = JStr ''15.00'', credit = JNull,
             discount = None\<rparr>]],
      tripsById = [], lineItems = []\<rparr>"

text \<open>A gateway whose charge of 15.00 is unrefunded and whose fee on a balance is the
  balance itself, so that the processing fee of a refund shows the cents refunded.\<close>

definition exampleGateway :: "bool payment_module" where
  "exampleGateway =
     \<lparr>retrieveCharge = (\<lambda>r. Inr \<lparr>charge_id = ''ch_1'', amount = 1500, amount_refunded = 0,
                                 source = True\<rparr>),
      isLocalAndNonAmex = (\<lambda>s. s),
      calculateAdminFeeInCents = (\<lambda>cents micro local. cents)\<rparr>"

definition examplePayment :: payment_row where
  "examplePayment = \<lparr>paymentResource = JStr ''ch_1'', payment_isMicro = Some False\<rparr>"

text \<open>The calls of \<^verbatim>\<open>Payment.chargeCard\<close> among the effects of \<^verbatim>\<open>chargeSale\<close>.\<close>

definition gatewayCalls :: "effect list \<Rightarrow> charge_request list" where
  "gatewayCalls es = concat (map (\<lambda>e. case e of ChargeCard rq \<Rightarrow> [rq] | _ \<Rightarrow> []) es)"

text \<open>A gateway that accepts every charge, a company with both merchant ids, and a sale
  transaction number 42 with one payment item of debit \<open>d\<close> and one transfer item,
  paid with a card token.\<close>

definition exampleChargeEnv :: charge_env where
  "exampleChargeEnv =
     \<lparr>chargeCard = (\<lambda>rq. Inr \<lparr>cres_id = Some ''ch_9'', cres_amount = Some 1500\<rparr>),
      isMicro = (\<lambda>a. False),
      findCompany =
        (\<lambda>i. if i = 3
              then Some \<lparr>smsOpCode = Some ''BUSCO'', company_name = Some ''Bus Company'',
                          clientId = Some ''acct_live'', sandboxId = Some ''acct_test''\<rparr>
              else None),
      stripeIsLive = False,
      testIdempotency = ''t''\<rparr>"

definition examplePaymentLine :: "jsval \<Rightarrow> sale_line" where
  "examplePaymentLine d =
     \<lparr>sl_itemType = ''payment'', sl_debit = d, sl_transferCompanyId = None,
      sl_paymentId = Some 11\<rparr>"

definition exampleCharge :: "jsval \<Rightarrow> charge_options" where
  "exampleCharge d =
     \<lparr>co_transaction =
        \<lparr>st_id = 42,
         st_items =
           [examplePaymentLine d,
            \<lparr>sl_itemType = ''transfer'', sl_debit = JNull, sl_transferCompanyId = Some 3,
              sl_paymentId = None\<rparr>]\<rparr>,
      tokenIat = 1,
      paymentDescription = Some ''Tickets'',
      stripeToken = Some ''tok_1'',
      customerId = None,
      sourceId = None\<rparr>"

text \<open>The ticket's value after discounts
  (\<^verbatim>\<open>ticketSale.credit - ticket.notes.discountValue\<close>) and the idempotency key of a
  ticket refund.\<close>

definition ticketPriceAfterDiscount :: "sale_row \<Rightarrow> ticket_row \<Rightarrow> fnum" where
  "ticketPriceAfterDiscount ticketSale tk =
     fsub (Fin (sale_credit ticketSale))
       (Fin (case tk_discountValue tk of None \<Rightarrow> 0 | Some d \<Rightarrow> d))"

text \<open>The refunds already made, as \<^verbatim>\<open>_.sum\<close> adds them.\<close>

definition previouslyRefunded :: "refund_db \<Rightarrow> fnum" where
  "previouslyRefunded db = sumF (map Fin (db_refundTI db))"

definition ticketRefundKey :: "string \<Rightarrow> ticket_row \<Rightarrow> string" where
  "ticketRefundKey env tk = ''Refund:instance='' @ env @ '',ticketId='' @ showNat (tk_id tk)"

text \<open>A ticket sold for 10.00 with a discount of 2.00, paid with a payment of 8.00 and
  never refunded; \<open>st\<close> is the ticket's status.\<close>

definition exampleTicket :: "string \<Rightarrow> ticket_row" where
  "exampleTicket st = \<lparr>tk_id = 4, tk_status = st, tk_discountValue = Some 2\<rparr>"

definition examplePaymentItem :: related_item where
  "examplePaymentItem =
     \<lparr>ri_itemType = ''payment'', ri_itemId = 11, ri_debit = 8, ri_isMicro = Some False\<rparr>"

definition exampleSale :: sale_row where
  "exampleSale =
     \<lparr>sale_credit = 10, sale_transactionId = 42,
      relatedTIs =
        [\<lparr>ri_itemType = ''ticketSale'', ri_itemId = 4, ri_debit = 0, ri_isMicro = None\<rparr>,
         examplePaymentItem]\<rparr>"

definition exampleRefundDb :: "string \<Rightarrow> refund_db" where
  "exampleRefundDb st =
     \<lparr>db_ticket = Some (exampleTicket st), db_company = Some 3, db_authorised = True,
      db_ticketSale = Some exampleSale, db_refundTI = [], db_payment = Some examplePayment\<rparr>"

text \<open>A ticket sold for 5.00 with a discount of 4.7, paid with a payment of 0.3 and never
  refunded.\<close>

definition discountedRefundDb :: refund_db where
  "discountedRefundDb =
     \<lparr>db_ticket = Some \<lparr>tk_id = 4, tk_status = ''valid'', tk_discountValue = Some (dbl (47 / 10))\<rparr>,
      db_company = Some 3, db_authorised = True,
      db_ticketSale = Some
        \<lparr>sale_credit = 5, sale_transactionId = 42,
         relatedTIs =
           [\<lparr>ri_itemType = ''payment'', ri_itemId = 11, ri_debit = dbl (3 / 10),
             ri_isMicro = Some False\<rparr>]\<rparr>,
      db_refundTI = [], db_payment = Some examplePayment\<rparr>"

text \<open>A cart with one ticket for 5.00 of which 4.75 is already discounted: 0.25 is
  outstanding; and a cart with one ticket for 0.07.\<close>

definition smallResidual :: builder where
  "smallResidual =
     \<lparr>items = [\<lparr>item_ticketId = 4, item_outstanding = 1 / 4, item_discountValue = 19 / 4\<rparr>],
      transactionItemsByType =
        [''ticketSale'' \<mapsto>
           [\<lparr>itemType = ''ticketSale'', itemId = JNum 4, debit = JUndefined, credit = JNum 5,
             discount = None\<rparr>],
         ''discount'' \<mapsto>
           [\<lparr>itemType = ''discount'', itemId = JUndefined, debit = JNum (19 / 4),
             credit = JUndefined, discount = None\<rparr>]],
      tripsById = [], lineItems = []\<rparr>"

definition sevenCents :: builder where
  "sevenCents =
     \<lparr>items = [\<lparr>item_ticketId = 4, item_outstanding = dbl (7 / 100), item_discountValue = 0\<rparr>],
      transactionItemsByType =
        [''ticketSale'' \<mapsto>
           [\<lparr>itemType = ''ticketSale'', itemId = JNum 4, debit = JUndefined,
             credit = JNum (dbl (7 / 100)), discount = None\<rparr>]],
      tripsById = [], lineItems = []\<rparr>"

text \<open>Orders checked with every flag off: one whose alighting stop is not a stop of the
  trip, and one for a builder whose trips belong to two companies.\<close>

definition noChecks :: check_options where
  "noChecks = \<lparr>ensureAvailability = False, noDuplicates = False, bookingWindow = False\<rparr>"

definition invalidStopSale :: builder where
  "invalidStopSale =
     \<lparr>items = [], transactionItemsByType = Map.empty,
      tripsById = [(7, exampleTrip)],
      lineItems = [exampleOrder\<lparr>alightStopId := 9\<rparr>]\<rparr>"

definition twoCompanySale :: builder where
  "twoCompanySale =
     \<lparr>items = [], transactionItemsByType = Map.empty,
      tripsById = [(7, exampleTrip), (8, exampleTrip\<lparr>trip_id := 8, transportCompanyId := 2\<rparr>)],
      lineItems = [exampleOrder]\<rparr>"

section \<open>Properties of double arithmetic\<close>

text \<open>Rules that let the simplifier evaluate \<open>roundDouble\<close> at a numeral.\<close>

lemma bitLength_0: "bitLength 0 = 0"
  by (simp add: bitLength.simps)

lemma bitLength_1: "bitLength 1 = 1" "bitLength (Suc 0) = 1"
  by (simp_all add: bitLength.simps [of "Suc 0"] bitLength_0)

lemma bitLength_numeral: "bitLength (numeral k) = 1 + bitLength (numeral k div 2)"
  by (subst bitLength.simps) simp

lemma floor_rat_numeral:
  "\<lfloor>numeral a / numeral b :: rat\<rfloor> = numeral a div numeral b"
  "\<lfloor>1 / numeral b :: rat\<rfloor> = 1 div numeral b"
  "\<lfloor>- (numeral a / numeral b) :: rat\<rfloor> = - numeral a div numeral b"
  using floor_divide_of_int_eq [of "numeral a" "numeral b", where ?'a = rat]
    floor_divide_of_int_eq [of 1 "numeral b", where ?'a = rat]
    floor_divide_of_int_eq [of "- numeral a" "numeral b", where ?'a = rat]
  by simp_all

lemma ceiling_rat_numeral:
  "\<lceil>numeral a / numeral b :: rat\<rceil> = - (- numeral a div numeral b)"
  "\<lceil>1 / numeral b :: rat\<rceil> = - (- 1 div numeral b)"
  unfolding ceiling_def using floor_rat_numeral(3) [of a b]
    floor_divide_of_int_eq [of "- 1" "numeral b", where ?'a = rat]
  by simp_all

lemmas double_eval = roundDouble_def binaryExponent_def roundHalfEven_def pow2_def Let_def
  bitLength_0 bitLength_1 bitLength_numeral floor_rat_numeral ceiling_rat_numeral

text \<open>The literals of the source: \<^verbatim>\<open>0.000001\<close>, \<^verbatim>\<open>0.0001\<close>, \<^verbatim>\<open>0.001\<close> and \<^verbatim>\<open>0.1\<close>.\<close>

lemma literal_1e6: "roundDouble (1 / 1000000) = Fin (4722366482869645 / 4722366482869645213696)"
  by (simp add: double_eval)

lemma literal_1e4: "roundDouble (1 / 10000) = Fin (7378697629483821 / 73786976294838206464)"
  by (simp add: double_eval)

lemma literal_1e3: "roundDouble (1 / 1000) = Fin (1152921504606847 / 1152921504606846976)"
  by (simp add: double_eval)

lemma literal_1e1: "roundDouble (1 / 10) = Fin (3602879701896397 / 36028797018963968)"
  by (simp add: double_eval)

text \<open>No operation on finite numbers gives \<^verbatim>\<open>NaN\<close>, and away from \<^verbatim>\<open>NaN\<close> the
  comparisons are each other's negations.\<close>

lemma roundDouble_not_NaN [simp]: "roundDouble x \<noteq> NaN"
  by (simp add: roundDouble_def Let_def)

lemma fsub_Fin_not_NaN [simp]: "fsub (Fin a) (Fin b) \<noteq> NaN"
  by (simp add: fsub_def)

lemma flt_NaN_right [simp]: "flt x NaN = False"
  by (cases x) simp_all

lemma fle_NaN_right [simp]: "fle x NaN = False"
  by (cases x) simp_all

lemma fadd_NaN_right [simp]: "fadd x NaN = NaN"
  by (cases x) simp_all

lemma fabs_NaN [simp]: "fabs x = NaN \<longleftrightarrow> x = NaN"
  by (cases x) simp_all

lemma not_flt_iff: "x \<noteq> NaN \<Longrightarrow> y \<noteq> NaN \<Longrightarrow> \<not> flt x y \<longleftrightarrow> fge x y"
  by (cases x; cases y) (simp_all add: fge_def not_less)

lemma not_fge_iff: "x \<noteq> NaN \<Longrightarrow> y \<noteq> NaN \<Longrightarrow> \<not> fge x y \<longleftrightarrow> flt x y"
  by (cases x; cases y) (simp_all add: fge_def not_le)

lemma not_fgt_iff: "y \<noteq> NaN \<Longrightarrow> \<not> fgt x y \<longleftrightarrow> x = NaN \<or> fle x y"
  by (cases x; cases y) (simp_all add: fgt_def not_less)

lemma fmul_Fin_not_NaN [simp]: "fmul (Fin a) b \<noteq> NaN"
  by simp

lemma fsub_round_Fin_not_NaN [simp]: "fsub (roundDouble x) (Fin c) \<noteq> NaN"
  by (cases "roundDouble x") (simp_all add: fsub_def)

section \<open>Properties of validateTxn\<close>

lemma dbl_1e6: "dbl (1 / 1000000) = 4722366482869645 / 4722366482869645213696"
  by (simp add: dbl_def literal_1e6)

lemma sumOfDebit_boundary:
  "sumOfDebit (the (transactionItems boundaryTxn)) = roundDouble (1 / 1000000)"
  by (simp add: boundaryTxn_def sumOfDebit_def signedAmount_def dbl_1e6 literal_1e6)

lemma validateTxn_boundary: "validateTxn boundaryTxn = Inr boundaryTxn"
  by (simp add: validateTxn_def exceedsTolerance_def fgt_def sumOfDebit_def signedAmount_def
      boundaryTxn_def dbl_1e6 literal_1e6)

text \<open>A sum that is \<^verbatim>\<open>NaN\<close> exceeds nothing: the transaction is returned.\<close>

lemma parse_abc: "parseFloatStr ''abc'' = NaN"
  by (simp add: parseFloatStr_def isWhite_def isDigit_def)

lemma validateTxn_unreadable:
  "sumOfDebit (the (transactionItems unreadableTxn)) = NaN"
  "validateTxn unreadableTxn = Inr unreadableTxn"
  by (simp_all add: validateTxn_def exceedsTolerance_def fgt_def sumOfDebit_def signedAmount_def
      unreadableTxn_def parse_abc)

text \<open>The sum is that of doubles, in the order of the items: \<^verbatim>\<open>1e16 + 1\<close> is
  \<^verbatim>\<open>1e16\<close>.\<close>

lemma absorbed_sum:
  "fadd (fadd (Fin 10000000000000000) (Fin 1)) (fneg (Fin 10000000000000000)) = Fin 0"
  by (simp add: double_eval)

lemma validateTxn_absorbed:
  "sumOfDebit (the (transactionItems absorbedTxn)) = Fin 0"
  "validateTxn absorbedTxn = Inr absorbedTxn"
  by (simp_all add: validateTxn_def exceedsTolerance_def fgt_def sumOfDebit_def signedAmount_def
      absorbedTxn_def literal_1e6 absorbed_sum del: fadd.simps fneg.simps)

lemma validateTxn_unlinked:
  "sumOfDebit (the (transactionItems unlinkedTxn)) = Fin 0"
  "validateTxn unlinkedTxn = Inl AssertionError"
  by (simp_all add: validateTxn_def sumOfDebit_def signedAmount_def unlinkedTxn_def double_eval)

text \<open>C1, as the code has it.  \<^verbatim>\<open>validateTxn\<close> returns a transaction, and then the
  transaction it was given, exactly when the items are there, every item has a truthy
  \<^verbatim>\<open>itemId\<close> and the signed sum (an item counts its debit when that is truthy,
  otherwise minus its credit when that is truthy, otherwise 0; added as doubles from left
  to right) is \<^verbatim>\<open>NaN\<close> or at most \<^verbatim>\<open>0.000001\<close> in absolute value; it throws its
  does-not-add-up error exactly when the items are there, every item has a truthy
  \<^verbatim>\<open>itemId\<close> and the absolute value of that sum is greater than \<^verbatim>\<open>0.000001\<close>.\<close>

theorem validateTxn_tolerance:
  "(validateTxn t = Inr r \<longleftrightarrow>
      r = t \<and> (\<exists>its. transactionItems t = Some its \<and> list_all (\<lambda>it. truthy (itemId it)) its
                 \<and> (sumOfDebit its = NaN
                      \<or> fle (fabs (sumOfDebit its)) (roundDouble (1 / 1000000)))))
   \<and> ((\<exists>msg. validateTxn t = Inl (Error msg)) \<longleftrightarrow>
      (\<exists>its. transactionItems t = Some its \<and> list_all (\<lambda>it. truthy (itemId it)) its
            \<and> fgt (fabs (sumOfDebit its)) (roundDouble (1 / 1000000))))"
proof -
  have e: "exceedsTolerance s \<longleftrightarrow> \<not> (s = NaN \<or> fle (fabs s) (roundDouble (1 / 1000000)))" for s
    using not_fgt_iff [of "roundDouble (1 / 1000000)" "fabs s"]
    by (auto simp: exceedsTolerance_def)
  have g: "fgt (fabs s) (roundDouble (1 / 1000000)) = exceedsTolerance s" for s
    by (simp add: exceedsTolerance_def)
  show ?thesis
    unfolding g
    by (cases "transactionItems t") (auto simp: validateTxn_def e)
qed

text \<open>C1, counterexample to the claim as stated: a transaction whose signed sum is
  \<^verbatim>\<open>0.000001\<close>, so not below \<^verbatim>\<open>0.000001\<close>, is accepted; so is a transaction whose sum
  is \<^verbatim>\<open>NaN\<close>, which is not below \<^verbatim>\<open>0.000001\<close> either; and a transaction whose signed
  sum is 0 is rejected, by the assertion on \<^verbatim>\<open>itemId\<close>.\<close>

theorem validateTxn_boundary_counterexample:
  "sumOfDebit (the (transactionItems boundaryTxn)) = roundDouble (1 / 1000000)
   \<and> \<not> flt (fabs (roundDouble (1 / 1000000))) (roundDouble (1 / 1000000))
   \<and> validateTxn boundaryTxn = Inr boundaryTxn
   \<and> sumOfDebit (the (transactionItems unreadableTxn)) = NaN
   \<and> \<not> flt (fabs NaN) (roundDouble (1 / 1000000))
   \<and> validateTxn unreadableTxn = Inr unreadableTxn
   \<and> sumOfDebit (the (transactionItems unlinkedTxn)) = Fin 0
   \<and> flt (fabs (Fin 0)) (roundDouble (1 / 1000000))
   \<and> validateTxn unlinkedTxn = Inl AssertionError"
  by (simp add: sumOfDebit_boundary validateTxn_boundary validateTxn_unreadable
      validateTxn_unlinked literal_1e6)

text \<open>C1, witness: the theorem at the transaction on the boundary.\<close>

theorem validateTxn_tolerance_witness:
  "validateTxn boundaryTxn = Inr boundaryTxn
   \<and> \<not> (\<exists>msg. validateTxn boundaryTxn = Inl (Error msg))"
  using validateTxn_tolerance [of boundaryTxn boundaryTxn]
  by (simp add: validateTxn_boundary)

section \<open>Properties of the booking window\<close>

lemma findIndex_None: "findIndex p xs = None \<longleftrightarrow> (\<forall>x\<in>set xs. \<not> p x)"
  by (induction xs) auto

lemma findIndex_Some:
  "findIndex p xs = Some i \<Longrightarrow> i < length xs \<and> p (xs ! i) \<and> List.find p xs = Some (xs ! i)"
  by (induction xs arbitrary: i) (auto split: if_splits)

lemma minOf_Min: "xs \<noteq> [] \<Longrightarrow> minOf xs = Some (Min (set xs))"
proof (induction xs)
  case Nil
  then show ?case by simp
next
  case (Cons x xs)
  show ?case
  proof (cases "xs = []")
    case True
    then show ?thesis by simp
  next
    case False
    with Cons have "minOf xs = Some (Min (set xs))" by simp
    with False show ?thesis by (simp add: Min_insert)
  qed
qed

lemma cutOff_spec:
  assumes "findIndex (\<lambda>ts. stop_id ts = boardStopId rq) (tripStops t) = Some b"
    and "findIndex (\<lambda>ts. stop_id ts = alightStopId rq) (tripStops t) = Some a"
  shows "cutOff t b a = Some (specCutoff t rq)"
proof -
  from assms(1) have b: "List.find (\<lambda>ts. stop_id ts = boardStopId rq) (tripStops t) = Some (tripStops t ! b)"
    and ne: "tripStops t \<noteq> []"
    using findIndex_Some by fastforce+
  from assms(2) have a: "List.find (\<lambda>ts. stop_id ts = alightStopId rq) (tripStops t) = Some (tripStops t ! a)"
    using findIndex_Some by fastforce
  from ne have m: "minOf (map stop_time (tripStops t)) = Some (Min (stop_time ` set (tripStops t)))"
    using minOf_Min [of "map stop_time (tripStops t)"] by simp
  show ?thesis
    by (simp add: cutOff_def specCutoff_def stopWithId_def a b m Let_def min_add_distrib_left)
qed

text \<open>C5.  When both requested stops are stops of the trip, the booking-window check
  rejects exactly when \<open>now\<close> is later than the cut-off of the specification, and then
  with the booking-window error; when one of them is not, the check rejects with the
  invalid-stop error whether or not the window is checked; and when the stored
  \<^verbatim>\<open>bookingInfo\<close> fails validation the window is that of type \<^verbatim>\<open>stop\<close> and size 0.\<close>

theorem bookingWindow_check:
  "(boardStopId rq \<in> stop_id ` set (tripStops t) \<and> alightStopId rq \<in> stop_id ` set (tripStops t)
      \<longrightarrow> ((\<exists>e. checkStopsAndBookingWindow True now (Some t) (Some rq) = Inl e)
             \<longleftrightarrow> now > specCutoff t rq)
         \<and> (now > specCutoff t rq \<longrightarrow>
              checkStopsAndBookingWindow True now (Some t) (Some rq)
                = Inl (TransactionError (BookingWindowClosed (specCutoff t rq)))))
   \<and> (boardStopId rq \<notin> stop_id ` set (tripStops t) \<or> alightStopId rq \<notin> stop_id ` set (tripStops t)
      \<longrightarrow> (\<forall>flag. checkStopsAndBookingWindow flag now (Some t) (Some rq)
                     = Inl (TransactionError (InvalidStop (trip_id t)))))
   \<and> (joiBookingInfo (case bookingInfo t of
                         None \<Rightarrow> \<lparr>raw_windowType = Missing, raw_windowSize = Missing\<rparr>
                       | Some raw \<Rightarrow> raw) = None
      \<longrightarrow> effectiveBookingInfo t = \<lparr>windowType = ''stop'', windowSize = 0\<rparr>)"
proof (intro conjI impI allI)
  assume h: "boardStopId rq \<in> stop_id ` set (tripStops t) \<and> alightStopId rq \<in> stop_id ` set (tripStops t)"
  then obtain b a where b: "findIndex (\<lambda>ts. stop_id ts = boardStopId rq) (tripStops t) = Some b"
    and a: "findIndex (\<lambda>ts. stop_id ts = alightStopId rq) (tripStops t) = Some a"
    using findIndex_None [of "\<lambda>ts. stop_id ts = boardStopId rq" "tripStops t"]
      findIndex_None [of "\<lambda>ts. stop_id ts = alightStopId rq" "tripStops t"]
    by (cases "findIndex (\<lambda>ts. stop_id ts = boardStopId rq) (tripStops t)";
        cases "findIndex (\<lambda>ts. stop_id ts = alightStopId rq) (tripStops t)") auto
  note c = cutOff_spec [OF b a]
  show "(\<exists>e. checkStopsAndBookingWindow True now (Some t) (Some rq) = Inl e) \<longleftrightarrow> now > specCutoff t rq"
    by (simp add: checkStopsAndBookingWindow_def a b c)
  show "checkStopsAndBookingWindow True now (Some t) (Some rq)
          = Inl (TransactionError (BookingWindowClosed (specCutoff t rq)))"
    if "now > specCutoff t rq"
    using that by (simp add: checkStopsAndBookingWindow_def a b c)
next
  fix flag
  assume "boardStopId rq \<notin> stop_id ` set (tripStops t) \<or> alightStopId rq \<notin> stop_id ` set (tripStops t)"
  then have "findIndex (\<lambda>ts. stop_id ts = boardStopId rq) (tripStops t) = None
           \<or> findIndex (\<lambda>ts. stop_id ts = alightStopId rq) (tripStops t) = None"
    by (auto simp: findIndex_None image_iff)
  then show "checkStopsAndBookingWindow flag now (Some t) (Some rq)
               = Inl (TransactionError (InvalidStop (trip_id t)))"
    by (auto simp: checkStopsAndBookingWindow_def split: option.splits)
next
  assume "joiBookingInfo (case bookingInfo t of
                         None \<Rightarrow> \<lparr>raw_windowType = Missing, raw_windowSize = Missing\<rparr>
                       | Some raw \<Rightarrow> raw) = None"
  then show "effectiveBookingInfo t = \<lparr>windowType = ''stop'', windowSize = 0\<rparr>"
    by (simp add: effectiveBookingInfo_def defaultBookingInfo_def)
qed

lemma exampleCutoff: "specCutoff exampleTrip exampleOrder = 700"
  by (simp add: specCutoff_def exampleTrip_def exampleOrder_def effectiveBookingInfo_def
      joiBookingInfo_def stopWithId_def)

text \<open>C5, witness: a trip with stops at 1000 and 2000 and a window of \<open>-300\<close>; the
  cut-off is 700.\<close>

theorem bookingWindow_check_witness:
  "checkStopsAndBookingWindow True 800 (Some exampleTrip) (Some exampleOrder)
     = Inl (TransactionError (BookingWindowClosed 700))
   \<and> \<not> (\<exists>e. checkStopsAndBookingWindow True 700 (Some exampleTrip) (Some exampleOrder) = Inl e)
   \<and> checkStopsAndBookingWindow True 0 (Some exampleTrip) (Some (exampleOrder\<lparr>alightStopId := 9\<rparr>))
     = Inl (TransactionError (InvalidStop 7))"
proof -
  have m: "boardStopId exampleOrder \<in> stop_id ` set (tripStops exampleTrip)
         \<and> alightStopId exampleOrder \<in> stop_id ` set (tripStops exampleTrip)"
    by (simp add: exampleTrip_def exampleOrder_def)
  have n: "alightStopId (exampleOrder\<lparr>alightStopId := 9\<rparr>) \<notin> stop_id ` set (tripStops exampleTrip)"
    by (simp add: exampleTrip_def exampleOrder_def)
  from bookingWindow_check [of exampleOrder exampleTrip 800]
    bookingWindow_check [of exampleOrder exampleTrip 700]
    bookingWindow_check [of "exampleOrder\<lparr>alightStopId := 9\<rparr>" exampleTrip 0] m n
  show ?thesis
    by (simp add: exampleCutoff) (simp add: exampleTrip_def)
qed

section \<open>Properties of the statement descriptor\<close>

lemma digit_not_forbidden: "k < 10 \<Longrightarrow> \<not> forbiddenChar (digitChar k)"
proof -
  assume "k < 10"
  then have "k \<in> {0,1,2,3,4,5,6,7,8,9::nat}" by auto
  then show ?thesis by (auto simp: forbiddenChar_def digitChar_def)
qed

lemma showNat_clean: "c \<in> set (showNat n) \<Longrightarrow> \<not> forbiddenChar c"
proof (induction n arbitrary: c rule: showNat.induct)
  case (1 n)
  show ?case
  proof (cases "n < 10")
    case True
    with "1.prems" show ?thesis
      by (simp add: showNat.simps [of n] digit_not_forbidden)
  next
    case False
    with "1.prems" have "c \<in> set (showNat (n div 10)) \<or> c = digitChar (n mod 10)"
      by (auto simp: showNat.simps [of n])
    with False "1.IH" show ?thesis
      using digit_not_forbidden [of "n mod 10"] by auto
  qed
qed

lemma filter_showNat: "filter (\<lambda>c. \<not> forbiddenChar c) (showNat n) = showNat n"
  by (rule filter_True) (simp add: showNat_clean)

lemma filter_ref: "filter (\<lambda>c. \<not> forbiddenChar c) '',Ref#'' = '',Ref#''"
  by (simp add: forbiddenChar_def)

text \<open>C6, as the code has it.  The statement descriptor is the first ten characters of the
  company descriptor with the characters \<^verbatim>\<open><>"'\<close> dropped from them, followed by
  \<^verbatim>\<open>,Ref#\<close> and the transaction id, cut to 22 characters: the ten characters are taken
  before the forbidden ones are dropped.  It has at most 22 characters and none of them
  is forbidden.\<close>

theorem statementDescriptor_shape:
  "statementDescriptor companyDescriptor txId =
     take 22 (filter (\<lambda>c. \<not> forbiddenChar c) (take 10 companyDescriptor)
                @ '',Ref#'' @ showNat txId)
   \<and> length (statementDescriptor companyDescriptor txId) \<le> 22
   \<and> (\<forall>c \<in> set (statementDescriptor companyDescriptor txId). \<not> forbiddenChar c)"
proof (intro conjI)
  show "statementDescriptor companyDescriptor txId =
     take 22 (filter (\<lambda>c. \<not> forbiddenChar c) (take 10 companyDescriptor)
                @ '',Ref#'' @ showNat txId)"
    unfolding statementDescriptor_def filter_append filter_showNat filter_ref ..
  show "length (statementDescriptor companyDescriptor txId) \<le> 22"
    by (simp add: statementDescriptor_def)
  show "\<forall>c \<in> set (statementDescriptor companyDescriptor txId). \<not> forbiddenChar c"
  proof
    fix c
    assume "c \<in> set (statementDescriptor companyDescriptor txId)"
    then have "c \<in> set (filter (\<lambda>c. \<not> forbiddenChar c)
                 (take 10 companyDescriptor @ '',Ref#'' @ showNat txId))"
      unfolding statementDescriptor_def by (rule in_set_takeD)
    then show "\<not> forbiddenChar c" unfolding set_filter by blast
  qed
qed

lemma showNat_7: "showNat 7 = ''7''"
  by (simp add: showNat.simps [of 7] digitChar_def)

text \<open>C6, counterexample to the claim as stated: for a company name with an apostrophe
  among its first ten characters the code keeps nine characters of the name, the
  specification's order of steps ten.\<close>

theorem statementDescriptor_counterexample:
  "statementDescriptor quotedName 7 = ''Joes Trav,Ref#7''
   \<and> specDescriptor quotedName 7 = ''Joes Trave,Ref#7''
   \<and> statementDescriptor quotedName 7 \<noteq> specDescriptor quotedName 7"
  by (simp add: statementDescriptor_def specDescriptor_def quotedName_def forbiddenChar_def showNat_7)

text \<open>C6, witness.\<close>

theorem statementDescriptor_shape_witness:
  "statementDescriptor quotedName 7 = ''Joes Trav,Ref#7''
   \<and> length (statementDescriptor quotedName 7) \<le> 22
   \<and> CHR 0x27 \<notin> set (statementDescriptor quotedName 7)"
  using statementDescriptor_shape [of quotedName 7]
  by (auto simp: quotedName_def forbiddenChar_def showNat_7)

section \<open>Properties of checkExpectedPrice\<close>

text \<open>A \<^verbatim>\<open>null\<close> expected price skips the check whatever the builder holds.\<close>

lemma checkExpectedPrice_null: "checkExpectedPrice tb JNull = Inr ()"
  by (simp add: checkExpectedPrice_def)

text \<open>An expected price that is \<^verbatim>\<open>undefined\<close> rather than \<^verbatim>\<open>null\<close> (what
  \<^verbatim>\<open>purchaseRoutePass\<close> passes when its caller supplies none) does not skip the check: it
  reads as \<^verbatim>\<open>NaN\<close> and the check fails.\<close>

lemma checkExpectedPrice_undefined:
  "transactionItemsByType tb ''payment'' = Some ps \<Longrightarrow>
     checkExpectedPrice tb JUndefined = Inl (TransactionError PriceChanged)"
  by (simp add: checkExpectedPrice_def fsub_def)

text \<open>C7.  With a payment line whose debit reads as the number \<open>paid\<close> and an expected
  price that is a number, the check fails with the price-changed error exactly when
  \<^verbatim>\<open>Math.abs(expectedPrice - paid)\<close>, computed on doubles, is \<^verbatim>\<open>0.001\<close> or more, and
  passes exactly when it is less; with \<^verbatim>\<open>null\<close> it passes.\<close>

theorem checkExpectedPrice_priceChanged:
  assumes "transactionItemsByType tb ''payment'' = Some (paymentItem # rest)"
    and "parseFloat (debit paymentItem) = Fin paid"
  shows "(checkExpectedPrice tb (JNum expectedPrice) = Inl (TransactionError PriceChanged)
            \<longleftrightarrow> fge (fabs (fsub (Fin expectedPrice) (Fin paid))) (roundDouble (1 / 1000)))
       \<and> (checkExpectedPrice tb (JNum expectedPrice) = Inr ()
            \<longleftrightarrow> flt (fabs (fsub (Fin expectedPrice) (Fin paid))) (roundDouble (1 / 1000)))
       \<and> checkExpectedPrice tb JNull = Inr ()"
  using assms
    not_flt_iff [of "fabs (fsub (Fin expectedPrice) (Fin paid))" "roundDouble (1 / 1000)"]
  by (auto simp: checkExpectedPrice_def)

lemma parse_15: "parseFloatStr ''15.00'' = Fin 15"
  by (simp add: parseFloatStr_def isWhite_def isDigit_def digitsValue_def pow10_def
      exponentPart_def double_eval)

lemma dbl_1499: "dbl (1499 / 100) = 8438619801785467 / 562949953421312"
  by (simp add: dbl_def double_eval)

lemma dbl_15001: "dbl (15001 / 1000) = 8444812251273101 / 562949953421312"
  by (simp add: dbl_def double_eval)

lemma price_differences:
  "flt (fabs (fsub (Fin 15) (Fin 15))) (roundDouble (1 / 1000))"
  "fge (fabs (fsub (Fin (dbl (1499 / 100))) (Fin 15))) (roundDouble (1 / 1000))"
  "flt (fabs (fsub (Fin (dbl (15001 / 1000))) (Fin 15))) (roundDouble (1 / 1000))"
  by (simp_all add: fsub_def fge_def dbl_1499 dbl_15001 literal_1e3 double_eval)

text \<open>C7, witness: a payment of \<^verbatim>\<open>"15.00"\<close> against the expected prices 15, 14.99 and
  15.001; the last differs from 15 by less than \<^verbatim>\<open>0.001\<close> as a double.\<close>

theorem checkExpectedPrice_priceChanged_witness:
  "checkExpectedPrice twoTicketSale (JNum 15) = Inr ()
   \<and> checkExpectedPrice twoTicketSale (JNum (dbl (1499 / 100))) = Inl (TransactionError PriceChanged)
   \<and> checkExpectedPrice twoTicketSale (JNum (dbl (15001 / 1000))) = Inr ()
   \<and> checkExpectedPrice twoTicketSale JNull = Inr ()"
proof -
  have g: "transactionItemsByType twoTicketSale ''payment'' =
      Some (\<lparr>itemType = ''payment'', itemId = JNum 1, debit = JStr ''15.00'', credit = JNull,
             discount = None\<rparr> # [])"
    by (simp add: twoTicketSale_def)
  have p: "parseFloat (debit \<lparr>itemType = ''payment'', itemId = JNum 1, debit = JStr ''15.00'',
             credit = JNull, discount = None\<rparr>) = Fin 15"
    by (simp add: parse_15)
  from checkExpectedPrice_priceChanged [OF g p, of 15]
    checkExpectedPrice_priceChanged [OF g p, of "dbl (1499 / 100)"]
    checkExpectedPrice_priceChanged [OF g p, of "dbl (15001 / 1000)"]
    price_differences
  show ?thesis by simp
qed

text \<open>Against a payment of \<^verbatim>\<open>"0.30"\<close> the expected price 0.301 differs by more than
  \<^verbatim>\<open>0.001\<close> as a double, and the check fails.\<close>

lemma parse_030: "parseFloatStr ''0.30'' = Fin (5404319552844595 / 18014398509481984)"
  by (simp add: parseFloatStr_def isWhite_def isDigit_def digitsValue_def pow10_def
      exponentPart_def double_eval)

lemma dbl_0301: "dbl (301 / 1000) = 5422333951354077 / 18014398509481984"
  by (simp add: dbl_def double_eval)

lemma thirty_cents_difference:
  "fge (fabs (fsub (Fin (dbl (301 / 1000))) (Fin (5404319552844595 / 18014398509481984))))
       (roundDouble (1 / 1000))"
  by (simp add: fsub_def fge_def dbl_0301 literal_1e3 double_eval)

lemma checkExpectedPrice_thirty_cents:
  "transactionItemsByType tb ''payment'' = Some [p] \<Longrightarrow> debit p = JStr ''0.30'' \<Longrightarrow>
     checkExpectedPrice tb (JNum (dbl (301 / 1000))) = Inl (TransactionError PriceChanged)"
  using thirty_cents_difference
    not_flt_iff [of "fabs (fsub (Fin (dbl (301 / 1000))) (Fin (5404319552844595 / 18014398509481984)))"
      "roundDouble (1 / 1000)"]
  by (simp add: checkExpectedPrice_def parse_030 del: fabs.simps)

section \<open>Properties of generateRefundInfo\<close>

text \<open>C8.  Once the charge has been retrieved, \<^verbatim>\<open>generateRefundInfo\<close> throws the
  refund-exceeds-paid error when the balance \<^verbatim>\<open>amount - amount_refunded\<close> is below
  \<^verbatim>\<open>amount*100 - 0.1\<close>; otherwise it returns a refund information whose processing fee is
  the fee on the balance minus the fee on the balance less \<^verbatim>\<open>Math.round(amount*100)\<close>,
  divided by 100; every operation is the one on doubles.\<close>

theorem generateRefundInfo_fee:
  assumes "retrieveCharge P (paymentResource pay) = Inr ch"
  shows "(flt (fsub (Fin (amount ch)) (Fin (amount_refunded ch)))
              (fsub (fmul (Fin amt) 100) (roundDouble (1 / 10))) \<longrightarrow>
            generateRefundInfo P (Some pay) (Fin amt) micro key
              = Inl (TransactionError RefundExceedsPaid))
       \<and> (\<not> flt (fsub (Fin (amount ch)) (Fin (amount_refunded ch)))
                (fsub (fmul (Fin amt) 100) (roundDouble (1 / 10))) \<longrightarrow>
            (\<exists>info. generateRefundInfo P (Some pay) (Fin amt) micro key = Inr info
               \<and> processingFee info =
                   fdiv (fsub
                     (calculateAdminFeeInCents P
                        (fsub (Fin (amount ch)) (Fin (amount_refunded ch))) micro
                        (isLocalAndNonAmex P (source ch)))
                     (calculateAdminFeeInCents P
                        (fsub (fsub (Fin (amount ch)) (Fin (amount_refunded ch)))
                              (fround (fmul (Fin amt) 100))) micro
                        (isLocalAndNonAmex P (source ch)))) 100
               \<and> info_charge info = ch \<and> info_isMicro info = micro
               \<and> balanceAmtCents info = fsub (Fin (amount ch)) (Fin (amount_refunded ch))
               \<and> info_amount info = Fin amt \<and> idempotencyKey info = key))"
proof -
  have "fmul (Fin amt) 100 = roundDouble (amt * 100)" by simp
  then have n: "fsub (fmul (Fin amt) 100) (roundDouble (1 / 10)) \<noteq> NaN"
    by (simp add: literal_1e1 del: fmul.simps)
  show ?thesis
    using assms
      not_fge_iff [OF fsub_Fin_not_NaN n, of "amount ch" "amount_refunded ch"]
    by (auto simp: generateRefundInfo_def Let_def simp del: fmul.simps)
qed

lemma dbl_1005: "dbl (201 / 200) = 1131529406376837 / 1125899906842624"
  by (simp add: dbl_def double_eval)

lemma refund_arith:
  "fsub (Fin 1500) (Fin 0) = Fin 1500"
  "fmul (Fin 15) 100 = Fin 1500"
  "fmul (Fin 16) 100 = Fin 1600"
  "fmul (Fin (dbl (201 / 200))) 100 = Fin (7072058789855231 / 70368744177664)"
  "fsub (Fin 1500) (Fin 1500) = Fin 0"
  "fsub (Fin 1500) (Fin 100) = Fin 1400"
  "fsub (Fin 1500) (Fin 1400) = Fin 100"
  "fdiv (Fin 1500) 100 = Fin 15"
  "fdiv (Fin 100) 100 = Fin 1"
  by (simp_all add: fsub_def dbl_1005 double_eval)

lemma refund_bounds:
  "\<not> flt (Fin 1500) (fsub (Fin 1500) (roundDouble (1 / 10)))"
  "flt (Fin 1500) (fsub (Fin 1600) (roundDouble (1 / 10)))"
  "\<not> flt (Fin 1500) (fsub (Fin (7072058789855231 / 70368744177664)) (roundDouble (1 / 10)))"
  by (simp_all add: fsub_def literal_1e1 double_eval)

lemma refund_rounds:
  "fround (Fin 1500) = Fin 1500"
  "fround (Fin (7072058789855231 / 70368744177664)) = Fin 100"
  by (simp_all add: floor_rat_numeral)

text \<open>C8, witness: refunds of 15.00, of 16.00 and of 1.005 against a charge of 1500 cents
  whose fee is the balance; \<^verbatim>\<open>1.005 * 100\<close> is a double below 100.5 and rounds to 100.\<close>

theorem generateRefundInfo_fee_witness:
  "(\<exists>info. generateRefundInfo exampleGateway (Some examplePayment) (Fin 15) (Some False) ''k''
             = Inr info \<and> processingFee info = Fin 15)
   \<and> generateRefundInfo exampleGateway (Some examplePayment) (Fin 16) (Some False) ''k''
       = Inl (TransactionError RefundExceedsPaid)
   \<and> (\<exists>info. generateRefundInfo exampleGateway (Some examplePayment) (Fin (dbl (201 / 200)))
               (Some False) ''k'' = Inr info \<and> processingFee info = Fin 1)"
proof -
  have r: "retrieveCharge exampleGateway (paymentResource examplePayment)
             = Inr \<lparr>charge_id = ''ch_1'', amount = 1500, amount_refunded = 0, source = True\<rparr>"
    by (simp add: exampleGateway_def)
  have f: "calculateAdminFeeInCents exampleGateway c m l = c" for c m l
    by (simp add: exampleGateway_def)
  from generateRefundInfo_fee [OF r, of 15 "Some False" "''k''"]
  have 1: "\<exists>info. generateRefundInfo exampleGateway (Some examplePayment) (Fin 15) (Some False) ''k''
             = Inr info \<and> processingFee info = Fin 15"
    by (simp add: f refund_arith refund_bounds refund_rounds
        del: fmul.simps fdiv.simps fround.simps) blast
  from generateRefundInfo_fee [OF r, of 16 "Some False" "''k''"]
  have 2: "generateRefundInfo exampleGateway (Some examplePayment) (Fin 16) (Some False) ''k''
       = Inl (TransactionError RefundExceedsPaid)"
    by (simp add: f refund_arith refund_bounds refund_rounds del: fmul.simps fdiv.simps fround.simps)
  from generateRefundInfo_fee [OF r, of "dbl (201 / 200)" "Some False" "''k''"]
  have 3: "\<exists>info. generateRefundInfo exampleGateway (Some examplePayment) (Fin (dbl (201 / 200)))
               (Some False) ''k'' = Inr info \<and> processingFee info = Fin 1"
    by (simp add: f refund_arith refund_bounds refund_rounds
        del: fmul.simps fdiv.simps fround.simps) blast
  from 1 2 3 show ?thesis by simp
qed

text \<open>\<^verbatim>\<open>0.075 * 100\<close> is the double 7.5 and rounds to 8.\<close>

lemma dbl_0075: "dbl (3 / 40) = 5404319552844595 / 72057594037927936"
  by (simp add: dbl_def double_eval)

lemma seven_and_a_half_cents:
  "fmul (Fin (dbl (3 / 40))) 100 = Fin (15 / 2)"
  "fround (Fin (15 / 2)) = Fin 8"
  by (simp_all add: dbl_0075 double_eval floor_rat_numeral)

section \<open>Properties of the ticket refund\<close>

text \<open>Once the request is complete, the ticket, its company and its sale are found, the
  caller is authorised and the sale has exactly one payment item, the workflow is the
  chain of its business checks.\<close>

lemma prepareTicketRefund_reached:
  assumes "targetAmt rq \<noteq> 0" and "ticketId rq \<noteq> 0"
    and "db_ticket db = Some tk"
    and "db_company db = Some cid" and "db_authorised db"
    and "db_ticketSale db = Some sale"
    and "filter (\<lambda>ti. ri_itemType ti = ''payment'') (relatedTIs sale) = [pay]"
  shows "prepareTicketRefund P env db rq =
     (if \<not> (tk_status tk = ''valid'' \<or> tk_status tk = ''void'')
      then Inl (TransactionError NonValidTicket)
      else if \<not> ri_debit pay > 0 then Inl (TransactionError NoPaymentMade)
      else if \<not> flt (fabs (fsub (Fin (targetAmt rq)) (ticketPriceAfterDiscount sale tk)))
                    (roundDouble (1 / 10000))
      then Inl (TransactionError RefundNotTicketValue)
      else if \<not> fge (fsub (ticketPriceAfterDiscount sale tk) (previouslyRefunded db))
                    (Fin (targetAmt rq))
      then Inl (TransactionError RefundExceedsAllowed)
      else (case generateRefundInfo P (db_payment db) (Fin (targetAmt rq))
                   (ri_isMicro (hd (relatedTIs sale))) (ticketRefundKey env tk) of
              Inl e \<Rightarrow> Inl e
            | Inr info \<Rightarrow>
                Inr \<lparr>pr_lines =
                       [\<lparr>rl_itemType = ''ticketRefund'', rl_itemId = tk_id tk,
                         rl_debit = Fin (targetAmt rq),
                         rl_refundedTransactionId = sale_transactionId sale\<rparr>],
                     pr_status = ''refunded'',
                     pr_undoFunctions = [UpdateStatus ''valid''],
                     pr_refundInfo = info\<rparr>))"
  using assms
  by (simp add: prepareTicketRefund_def ticketPriceAfterDiscount_def ticketRefundKey_def
      previouslyRefunded_def Let_def)

text \<open>C2, as the code has it.  For a request that gets as far as the business checks (a
  non-zero amount and ticket id, the ticket, its company and its sale found, the caller
  authorised, exactly one payment item), \<^verbatim>\<open>prepareTicketRefund\<close> throws a
  TransactionError when \<^verbatim>\<open>Math.abs(targetAmt - priceAfterDiscount)\<close> is not below
  \<^verbatim>\<open>0.0001\<close>, and when \<^verbatim>\<open>priceAfterDiscount - previouslyRefunded\<close> is not at least
  \<^verbatim>\<open>targetAmt\<close>: the second bound has no tolerance.  Whenever it returns, both checks
  have passed and the builder's only \<^verbatim>\<open>ticketRefund\<close> line has \<^verbatim>\<open>targetAmt\<close> as its
  debit; and it does return when the ticket is valid or void, a payment was made, both
  checks pass and the gateway provides the refund information.\<close>

theorem prepareTicketRefund_amount_checks:
  assumes "targetAmt rq \<noteq> 0" and "ticketId rq \<noteq> 0"
    and "db_ticket db = Some tk"
    and "db_company db = Some cid" and "db_authorised db"
    and "db_ticketSale db = Some sale"
    and "filter (\<lambda>ti. ri_itemType ti = ''payment'') (relatedTIs sale) = [pay]"
  shows "(\<not> flt (fabs (fsub (Fin (targetAmt rq)) (ticketPriceAfterDiscount sale tk)))
                (roundDouble (1 / 10000)) \<longrightarrow>
            (\<exists>r. prepareTicketRefund P env db rq = Inl (TransactionError r)))
       \<and> (\<not> fge (fsub (ticketPriceAfterDiscount sale tk) (previouslyRefunded db))
                (Fin (targetAmt rq)) \<longrightarrow>
            (\<exists>r. prepareTicketRefund P env db rq = Inl (TransactionError r)))
       \<and> (\<forall>res. prepareTicketRefund P env db rq = Inr res \<longrightarrow>
            flt (fabs (fsub (Fin (targetAmt rq)) (ticketPriceAfterDiscount sale tk)))
                (roundDouble (1 / 10000))
            \<and> fge (fsub (ticketPriceAfterDiscount sale tk) (previouslyRefunded db))
                   (Fin (targetAmt rq))
            \<and> (\<exists>l. pr_lines res = [l] \<and> rl_itemType l = ''ticketRefund''
                     \<and> rl_itemId l = tk_id tk \<and> rl_debit l = Fin (targetAmt rq)))
       \<and> ((tk_status tk = ''valid'' \<or> tk_status tk = ''void'') \<and> ri_debit pay > 0
            \<and> flt (fabs (fsub (Fin (targetAmt rq)) (ticketPriceAfterDiscount sale tk)))
                   (roundDouble (1 / 10000))
            \<and> fge (fsub (ticketPriceAfterDiscount sale tk) (previouslyRefunded db))
                   (Fin (targetAmt rq))
            \<and> (\<exists>info. generateRefundInfo P (db_payment db) (Fin (targetAmt rq))
                   (ri_isMicro (hd (relatedTIs sale))) (ticketRefundKey env tk) = Inr info)
          \<longrightarrow> (\<exists>res l. prepareTicketRefund P env db rq = Inr res
                  \<and> pr_lines res = [l] \<and> rl_debit l = Fin (targetAmt rq)))"
  unfolding prepareTicketRefund_reached [OF assms]
  by (auto split: sum.splits)

lemma exampleRefund_facts:
  "db_ticket (exampleRefundDb st) = Some (exampleTicket st)"
  "db_company (exampleRefundDb st) = Some 3"
  "db_authorised (exampleRefundDb st)"
  "db_ticketSale (exampleRefundDb st) = Some exampleSale"
  "filter (\<lambda>ti. ri_itemType ti = ''payment'') (relatedTIs exampleSale) = [examplePaymentItem]"
  by (simp_all add: exampleRefundDb_def exampleSale_def examplePaymentItem_def)

lemma exampleRefund_values:
  "ticketPriceAfterDiscount exampleSale (exampleTicket st) = Fin 8"
  "previouslyRefunded (exampleRefundDb st) = Fin 0"
  "tk_status (exampleTicket st) = st"
  "tk_id (exampleTicket st) = 4"
  "ri_debit examplePaymentItem > 0"
  "db_payment (exampleRefundDb st) = Some examplePayment"
  by (simp_all add: ticketPriceAfterDiscount_def previouslyRefunded_def exampleSale_def
      exampleTicket_def exampleRefundDb_def examplePaymentItem_def fsub_def double_eval)

lemma exampleRefund_arith:
  "\<not> flt (fabs (fsub (Fin 7) (Fin 8))) (roundDouble (1 / 10000))"
  "flt (fabs (fsub (Fin 8) (Fin 8))) (roundDouble (1 / 10000))"
  "fge (fsub (Fin 8) (Fin 0)) (Fin 8)"
  by (simp_all add: fsub_def fge_def literal_1e4 double_eval)

lemma exampleRefund_gateway:
  "\<exists>info. generateRefundInfo exampleGateway (Some examplePayment) (Fin 8) m k = Inr info"
  by (simp add: generateRefundInfo_def exampleGateway_def examplePayment_def fge_def fsub_def
      literal_1e1 double_eval)

text \<open>C2, witness: for a ticket worth 8.00 after discounts, a refund of 7.00 is refused
  and a refund of 8.00 is prepared with a debit of 8.00.\<close>

theorem prepareTicketRefund_amount_checks_witness:
  "(\<exists>r. prepareTicketRefund exampleGateway ''t'' (exampleRefundDb ''valid'')
           \<lparr>targetAmt = 7, ticketId = 4\<rparr> = Inl (TransactionError r))
   \<and> (\<exists>res l. prepareTicketRefund exampleGateway ''t'' (exampleRefundDb ''valid'')
           \<lparr>targetAmt = 8, ticketId = 4\<rparr> = Inr res \<and> pr_lines res = [l] \<and> rl_debit l = Fin 8)"
proof -
  have a: "targetAmt \<lparr>targetAmt = 7, ticketId = 4\<rparr> \<noteq> 0" "ticketId \<lparr>targetAmt = 7, ticketId = 4\<rparr> \<noteq> 0"
    "targetAmt \<lparr>targetAmt = 8, ticketId = 4\<rparr> \<noteq> 0" "ticketId \<lparr>targetAmt = 8, ticketId = 4\<rparr> \<noteq> 0"
    by simp_all
  from prepareTicketRefund_amount_checks
         [OF a(1) a(2) exampleRefund_facts(1-5), of "''valid''" exampleGateway "''t''"]
  have 1: "\<exists>r. prepareTicketRefund exampleGateway ''t'' (exampleRefundDb ''valid'')
           \<lparr>targetAmt = 7, ticketId = 4\<rparr> = Inl (TransactionError r)"
    by (simp add: exampleRefund_values exampleRefund_arith)
  from prepareTicketRefund_amount_checks
         [OF a(3) a(4) exampleRefund_facts(1-5), of "''valid''" exampleGateway "''t''"]
       exampleRefund_gateway
  have 2: "\<exists>res l. prepareTicketRefund exampleGateway ''t'' (exampleRefundDb ''valid'')
           \<lparr>targetAmt = 8, ticketId = 4\<rparr> = Inr res \<and> pr_lines res = [l] \<and> rl_debit l = Fin 8"
    by (simp add: exampleRefund_values exampleRefund_arith)
  from 1 2 show ?thesis by simp
qed

lemma dbl_target: "dbl (160001 / 20000) = 4503627774868167 / 562949953421312"
  by (simp add: dbl_def double_eval)

lemma overTarget_arith:
  "flt (fabs (fsub (Fin (dbl (160001 / 20000))) (Fin 8))) (roundDouble (1 / 10000))"
  "\<not> fgt (fadd (Fin 0) (Fin (dbl (160001 / 20000)))) (fadd (Fin 8) (roundDouble (1 / 10000)))"
  "\<not> fge (fsub (Fin 8) (Fin 0)) (Fin (dbl (160001 / 20000)))"
  "dbl (160001 / 20000) \<noteq> 0"
  by (simp_all add: fsub_def fge_def fgt_def dbl_target literal_1e4 double_eval)

text \<open>C2, counterexample to the claim as stated: for the same ticket and a refund of
  8.00005, the amount differs from the ticket's value by less than \<^verbatim>\<open>0.0001\<close> and the
  refunds made plus the amount do not exceed the value plus \<^verbatim>\<open>0.0001\<close>, so both
  conditions of the claim pass; yet no refund is prepared: the workflow throws the
  exceeds-allowed error.\<close>

theorem prepareTicketRefund_tolerance_counterexample:
  "flt (fabs (fsub (Fin (dbl (160001 / 20000)))
                   (ticketPriceAfterDiscount exampleSale (exampleTicket ''valid''))))
       (roundDouble (1 / 10000))
   \<and> \<not> fgt (fadd (previouslyRefunded (exampleRefundDb ''valid'')) (Fin (dbl (160001 / 20000))))
            (fadd (ticketPriceAfterDiscount exampleSale (exampleTicket ''valid''))
                  (roundDouble (1 / 10000)))
   \<and> prepareTicketRefund exampleGateway ''t'' (exampleRefundDb ''valid'')
        \<lparr>targetAmt = dbl (160001 / 20000), ticketId = 4\<rparr>
       = Inl (TransactionError RefundExceedsAllowed)"
proof -
  have a: "targetAmt \<lparr>targetAmt = dbl (160001 / 20000), ticketId = 4\<rparr> \<noteq> 0"
    "ticketId \<lparr>targetAmt = dbl (160001 / 20000), ticketId = 4\<rparr> \<noteq> 0"
    by (simp_all add: overTarget_arith)
  show ?thesis
    unfolding prepareTicketRefund_reached [OF a exampleRefund_facts(1-5)]
    by (simp add: exampleRefund_values overTarget_arith del: fadd.simps)
qed

text \<open>The same happens to the full refund of a ticket sold for 5.00 with a discount of 4.7:
  \<^verbatim>\<open>5 - 4.7\<close> is a double below \<^verbatim>\<open>0.3\<close>.\<close>

lemma dbl_discount: "dbl (47 / 10) = 5291729562160333 / 1125899906842624"
  "dbl (3 / 10) = 5404319552844595 / 18014398509481984"
  by (simp_all add: dbl_def double_eval)

lemma discounted_arith:
  "fsub (Fin 5) (Fin (dbl (47 / 10))) = Fin (337769972052787 / 1125899906842624)"
  "flt (fabs (fsub (Fin (dbl (3 / 10))) (Fin (337769972052787 / 1125899906842624))))
       (roundDouble (1 / 10000))"
  "\<not> fge (fsub (Fin (337769972052787 / 1125899906842624)) (Fin 0)) (Fin (dbl (3 / 10)))"
  "dbl (3 / 10) > 0"
  by (simp_all add: fsub_def fge_def dbl_discount literal_1e4 double_eval)

lemma prepareTicketRefund_discounted:
  "prepareTicketRefund P ''t'' discountedRefundDb \<lparr>targetAmt = dbl (3 / 10), ticketId = 4\<rparr>
     = Inl (TransactionError RefundExceedsAllowed)"
  using discounted_arith(4)
  by (simp add: prepareTicketRefund_def discountedRefundDb_def discounted_arith(1-3)
      del: fabs.simps)

section \<open>Properties of the recorded undo functions\<close>

text \<open>C3, the code at a void ticket: the refund is prepared, the ticket's status becomes
  \<^verbatim>\<open>refunded\<close>, and running the recorded undo function sets it to \<^verbatim>\<open>valid\<close>, which is
  not the status the ticket had.\<close>

theorem prepareTicketRefund_undo_void:
  "\<exists>res. prepareTicketRefund exampleGateway ''t'' (exampleRefundDb ''void'')
             \<lparr>targetAmt = 8, ticketId = 4\<rparr> = Inr res
         \<and> pr_status res = ''refunded''
         \<and> map (\<lambda>u. runUndo u (pr_status res)) (pr_undoFunctions res) = [''valid'']
         \<and> ''valid'' \<noteq> tk_status (exampleTicket ''void'')"
proof -
  have a: "targetAmt \<lparr>targetAmt = 8, ticketId = 4\<rparr> \<noteq> 0" "ticketId \<lparr>targetAmt = 8, ticketId = 4\<rparr> \<noteq> 0"
    by simp_all
  obtain info where g: "generateRefundInfo exampleGateway (Some examplePayment) (Fin 8)
      (ri_isMicro (hd (relatedTIs exampleSale))) (ticketRefundKey ''t'' (exampleTicket ''void''))
        = Inr info"
    using exampleRefund_gateway by blast
  show ?thesis
    unfolding prepareTicketRefund_reached [OF a exampleRefund_facts(1-5)]
    by (simp add: exampleRefund_values exampleRefund_arith g)
qed

text \<open>The undo function of a route-pass refund restores the status the pass had, which
  was valid, void or expired; that of a ticket refund always writes \<^verbatim>\<open>valid\<close>.\<close>

lemma prepareRoutePassRefund_undo:
  "prepareRoutePassRefund P env db transactionItem routePass = Inr res \<Longrightarrow>
     pr_status res = ''refunded''
     \<and> map (\<lambda>u. runUndo u (pr_status res)) (pr_undoFunctions res) = [rp_status routePass]
     \<and> rp_status routePass \<in> {''valid'', ''void'', ''expired''}"
  by (auto simp: prepareRoutePassRefund_def Let_def split: if_splits option.splits sum.splits)

lemma prepareTicketRefund_undo:
  "prepareTicketRefund P env db rq = Inr res \<Longrightarrow>
     pr_status res = ''refunded''
     \<and> map (\<lambda>u. runUndo u (pr_status res)) (pr_undoFunctions res) = [''valid'']"
  by (auto simp: prepareTicketRefund_def Let_def
      split: if_splits option.splits sum.splits list.splits)

section \<open>Properties of absorbSmallPayments\<close>

lemma fromPairs_distinct:
  "distinct (map f xs) \<Longrightarrow> x \<in> set xs \<Longrightarrow>
     fromPairs (zip (map f xs) (map g xs)) (f x) = Some (g x)"
proof -
  assume d: "distinct (map f xs)" and x: "x \<in> set xs"
  have z: "zip (map f xs) (map g xs) = map (\<lambda>y. (f y, g y)) xs"
    by (induction xs) simp_all
  have "distinct (map fst (rev (map (\<lambda>y. (f y, g y)) xs)))"
    using d by (simp add: rev_map [symmetric] comp_def distinct_rev del: rev_map)
  moreover have "(f x, g x) \<in> set (rev (map (\<lambda>y. (f y, g y)) xs))"
    using x by auto
  ultimately have "map_of (rev (map (\<lambda>y. (f y, g y)) xs)) (f x) = Some (g x)"
    by (rule map_of_is_SomeI)
  then show ?thesis by (simp add: fromPairs_def z)
qed

lemma amountOf_simps [simp]: "amountOf JUndefined = 0" "amountOf JNull = 0" "amountOf (JNum r) = r"
  by (simp_all add: amountOf_def)

text \<open>C4.  When the excess credit is positive and \<^verbatim>\<open>excess * 100\<close>, the product of
  doubles, is at most the gateway's minimum charge, \<^verbatim>\<open>absorbSmallPayments\<close> returns a
  builder whose discount lines are those it had and one more; that line's debit is the
  excess credit, its description is \<^verbatim>\<open>Transaction fee absorbed\<close>, it allocates to every
  ticket (the tickets of a sale being distinct) the amount outstanding for it, the lines
  of every other type are unchanged, and the excess credit of the result is 0: nothing is
  left to pay and credits equal debits.\<close>

theorem absorbSmallPayments_absorbs:
  assumes "excessCredit tb > 0"
    and "fle (fmul (Fin (excessCredit tb)) 100) (Fin minCharge)"
  shows "\<exists>l d. transactionItemsByType (absorbSmallPayments minCharge tb) ''discount''
                 = Some (linesOf (transactionItemsByType tb) ''discount'' @ [l])
          \<and> itemType l = ''discount'' \<and> debit l = JNum (excessCredit tb)
          \<and> discount l = Some d \<and> description d = ''Transaction fee absorbed''
          \<and> refundAmounts d = discountAmounts d
          \<and> (distinct (map item_ticketId (items tb)) \<longrightarrow>
               (\<forall>it \<in> set (items tb).
                  discountAmounts d (item_ticketId it) = Some (item_outstanding it)))
          \<and> (\<forall>ty. ty \<noteq> ''discount'' \<longrightarrow>
                 transactionItemsByType (absorbSmallPayments minCharge tb) ty
                   = transactionItemsByType tb ty)
          \<and> excessCredit (absorbSmallPayments minCharge tb) = 0"
proof -
  let ?amts = "fromPairs (zip (map item_ticketId (items tb)) (outstandingAmounts (items tb)))"
  let ?d = "\<lparr>description = ''Transaction fee absorbed'', code = [],
             discountAmounts = ?amts, refundAmounts = ?amts\<rparr>"
  let ?l = "\<lparr>itemType = ''discount'', itemId = JUndefined, debit = JNum (excessCredit tb),
             credit = JUndefined, discount = Some ?d\<rparr>"
  have by_type: "transactionItemsByType (absorbSmallPayments minCharge tb)
       = (transactionItemsByType tb)
           (''discount'' \<mapsto> linesOf (transactionItemsByType tb) ''discount'' @ [?l])"
    using assms by (simp add: absorbSmallPayments_def Let_def del: fmul.simps)
  have alloc: "\<forall>it \<in> set (items tb). ?amts (item_ticketId it) = Some (item_outstanding it)"
    if "distinct (map item_ticketId (items tb))"
    using that by (simp add: outstandingAmounts_def fromPairs_distinct)
  have zero: "excessCredit (absorbSmallPayments minCharge tb) = 0"
    by (simp add: excessCredit_def by_type itemTypes_def linesOf_def)
  show ?thesis
    apply (rule exI [where x = ?l])
    apply (rule exI [where x = ?d])
    using alloc zero by (simp add: by_type)
qed

lemma smallResidual_excess: "excessCredit smallResidual = 1 / 4"
  by (simp add: excessCredit_def smallResidual_def itemTypes_def linesOf_def)

lemma smallResidual_cents: "fle (fmul (Fin (1 / 4)) 100) (Fin 50)"
  by (simp add: double_eval)

text \<open>C4, witness: 0.25 outstanding against a minimum charge of 50 cents.\<close>

theorem absorbSmallPayments_absorbs_witness:
  "(\<exists>l d. linesOf (transactionItemsByType (absorbSmallPayments 50 smallResidual)) ''discount''
            = linesOf (transactionItemsByType smallResidual) ''discount'' @ [l]
          \<and> debit l = JNum (1 / 4) \<and> discount l = Some d
          \<and> discountAmounts d 4 = Some (1 / 4))
   \<and> excessCredit (absorbSmallPayments 50 smallResidual) = 0"
proof -
  have a: "excessCredit smallResidual > 0"
    "fle (fmul (Fin (excessCredit smallResidual)) 100) (Fin 50)"
    using smallResidual_cents by (simp_all add: smallResidual_excess del: fmul.simps)
  have i: "items smallResidual
      = [\<lparr>item_ticketId = 4, item_outstanding = 1 / 4, item_discountValue = 19 / 4\<rparr>]"
    by (simp add: smallResidual_def)
  from absorbSmallPayments_absorbs [OF a]
  show ?thesis
    by (auto simp: smallResidual_excess i linesOf_def)
qed

text \<open>An excess of 0.07 against a minimum charge of 7 cents is not absorbed:
  \<^verbatim>\<open>0.07 * 100\<close> is a double above 7.\<close>

lemma dbl_7: "dbl (7 / 100) = 1261007895663739 / 18014398509481984"
  by (simp add: dbl_def double_eval)

lemma sevenCents_excess: "excessCredit sevenCents = dbl (7 / 100)"
  by (simp add: excessCredit_def sevenCents_def itemTypes_def linesOf_def)

lemma sevenCents_cents:
  "fmul (Fin (dbl (7 / 100))) 100 = Fin (7881299347898369 / 1125899906842624)"
  "\<not> fle (Fin (7881299347898369 / 1125899906842624)) (Fin 7)"
  by (simp_all add: dbl_7 double_eval)

lemma absorbSmallPayments_sevenCents: "absorbSmallPayments 7 sevenCents = sevenCents"
  by (simp add: absorbSmallPayments_def sevenCents_excess sevenCents_cents del: fmul.simps)

section \<open>Properties of runOrderChecks\<close>

text \<open>With the booking-window flag off the source calls \<^verbatim>\<open>checkValidTripStop()\<close> without
  arguments before it applies the result to the trip and the order; that call reads
  \<^verbatim>\<open>tripStops\<close> of \<^verbatim>\<open>undefined\<close>.  So every run with the flag off, at least one order
  and no cancelled trip ends in a TypeError.\<close>

lemma checkValidTripStop_no_arguments:
  "checkValidTripStop (None :: trip option) (None :: trip_order option) = Inl TypeError"
  by (simp add: checkValidTripStop_def checkStopsAndBookingWindow_def)

lemma runOrderChecks_without_window:
  assumes "\<not> bookingWindow checkOptions" and "lineItems tb \<noteq> []"
    and "\<forall>(tid, t) \<in> set (tripsById tb). isRunning t"
  shows "runOrderChecks clock tb checkOptions = Inl TypeError"
proof -
  have r: "checkRunning ts = Inr ()" if "\<forall>(tid, t) \<in> set ts. isRunning t" for ts
    using that by (induction ts) auto
  obtain order rest where l: "lineItems tb = order # rest"
    using assms(2) by (cases "lineItems tb") auto
  have "checkOrder now (tripsById tb) checkOptions order = Inl TypeError" for now
    using assms(1) by (simp add: checkOrder_def checkValidTripStop_no_arguments)
  then show ?thesis
    using r [OF assms(3)] by (simp add: runOrderChecks_def l)
qed

text \<open>C9, the code with every flag off: an order with an invalid stop, and trips of two
  companies, both end in a TypeError, not in a TransactionError; with the booking-window
  flag on the same inputs end in the invalid-stop and the multiple-companies error.\<close>

theorem runOrderChecks_no_window_TypeError:
  "runOrderChecks (\<lambda>i. 0) invalidStopSale noChecks = Inl TypeError
   \<and> runOrderChecks (\<lambda>i. 0) twoCompanySale noChecks = Inl TypeError
   \<and> companyCount (tripsById twoCompanySale) = 2
   \<and> runOrderChecks (\<lambda>i. 0) invalidStopSale (noChecks\<lparr>bookingWindow := True\<rparr>)
       = Inl (TransactionError (InvalidStop 7))
   \<and> runOrderChecks (\<lambda>i. 0) twoCompanySale (noChecks\<lparr>bookingWindow := True\<rparr>)
       = Inl (TransactionError MultipleCompanies)"
  by (simp add: runOrderChecks_def invalidStopSale_def twoCompanySale_def noChecks_def
      exampleTrip_def exampleOrder_def checkOrder_def checkValidTripStop_def
      checkValidBookingWindow_def checkStopsAndBookingWindow_def companyCount_def
      cutOff_def effectiveBookingInfo_def joiBookingInfo_def)

section \<open>Properties of chargeSale\<close>

lemma gatewayCalls_append [simp]: "gatewayCalls (xs @ ys) = gatewayCalls xs @ gatewayCalls ys"
  by (simp add: gatewayCalls_def)

lemma gatewayCalls_simps [simp]:
  "gatewayCalls [] = []"
  "gatewayCalls (ChargeCard rq # es) = rq # gatewayCalls es"
  "gatewayCalls (PaymentUpdate pid u # es) = gatewayCalls es"
  by (simp_all add: gatewayCalls_def)

text \<open>What the checks before the charge ask for: a payment description, a card token or
  a saved customer and source, exactly one payment and one transfer item, the company of
  the transfer with a merchant id for the current mode and a descriptor.\<close>

lemma chargePreamble_passes:
  assumes "present (paymentDescription options)"
    and "present (stripeToken options)
         \<or> (present (customerId options) \<and> present (sourceId options))"
    and "filter (\<lambda>l. sl_itemType l = ''payment'') (st_items (co_transaction options))
           = [paymentLine]"
    and "filter (\<lambda>l. sl_itemType l = ''transfer'') (st_items (co_transaction options))
           = [transferLine]"
    and "sl_transferCompanyId transferLine = Some busCompanyId"
    and "findCompany E busCompanyId = Some companyInfo"
    and "present (if stripeIsLive E then clientId companyInfo else sandboxId companyInfo)"
    and "companyDescriptorOf companyInfo = Some companyDescriptor"
  shows "\<exists>request. chargePreamble E options = Inr (paymentLine, request)
           \<and> cr_value request = sl_debit paymentLine
           \<and> cr_statement_descriptor request
               = statementDescriptor companyDescriptor (st_id (co_transaction options))"
  using assms by (simp add: chargePreamble_def txnGroup_def Let_def)

lemma chargePreamble_source:
  "chargePreamble E options = Inr (paymentLine, request) \<Longrightarrow>
     present (stripeToken options) \<or> (present (customerId options) \<and> present (sourceId options))"
  by (auto simp: chargePreamble_def Let_def split: if_splits option.splits)

lemma chargePreamble_payment:
  "chargePreamble E options = Inr (paymentLine, request) \<Longrightarrow>
     filter (\<lambda>l. sl_itemType l = ''payment'') (st_items (co_transaction options)) = [paymentLine]
     \<and> txnGroup (co_transaction options) ''payment'' = Some [paymentLine]
     \<and> cr_value request = sl_debit paymentLine"
  by (auto simp: chargePreamble_def txnGroup_def Let_def length_Suc_conv
      split: if_splits option.splits list.splits)

lemma chargeStep_calls:
  assumes "present (stripeToken options) \<or> (present (customerId options) \<and> present (sourceId options))"
  shows "(fst (chargeStep E options v request) = []) = (v = JStr ''0.00'')"
    and "v \<noteq> JStr ''0.00'' \<Longrightarrow> \<exists>rq. fst (chargeStep E options v request) = [ChargeCard rq]
            \<and> cr_value rq = cr_value request"
    and "chargeStep E options (JStr ''0.00'') request = ([], Inr \<lparr>cres_id = None, cres_amount = None\<rparr>)"
  using assms by (auto simp: chargeStep_def Let_def)

lemma storeCharge_calls: "gatewayCalls (fst (storeCharge E pl step)) = gatewayCalls (fst step)"
  by (cases step) (auto simp: storeCharge_def split: sum.splits option.splits)

lemma chargeSale_calls:
  "gatewayCalls (fst (chargeSale E options)) = gatewayCalls (fst (chargeSaleTry E options))"
  by (cases "chargeSaleTry E options")
     (auto simp: chargeSale_def split: sum.splits option.splits)

text \<open>C10.  When everything \<^verbatim>\<open>chargeSale\<close> checks before charging passes, it calls
  \<^verbatim>\<open>chargeCard\<close> exactly when the debit of the payment item is not the string
  \<^verbatim>\<open>"0.00"\<close>; when it is that string, the only effect is the update of the Payment row
  with a \<^verbatim>\<open>null\<close> payment resource; when it is the number 0 or the string \<^verbatim>\<open>"0"\<close>,
  \<^verbatim>\<open>chargeCard\<close> is called once, with that value.\<close>

theorem chargeSale_zero_string:
  assumes "chargePreamble E options = Inr (paymentLine, request)"
  shows "(gatewayCalls (fst (chargeSale E options)) \<noteq> [] \<longleftrightarrow> sl_debit paymentLine \<noteq> JStr ''0.00'')
       \<and> (sl_debit paymentLine = JStr ''0.00'' \<longrightarrow>
            (\<forall>pid. sl_paymentId paymentLine = Some pid \<longrightarrow>
               chargeSale E options =
                 ([PaymentUpdate pid
                     (ChargeStored None \<lparr>cres_id = None, cres_amount = None\<rparr> (isMicro E None))],
                  Inr ())))
       \<and> (sl_debit paymentLine = JNum 0 \<or> sl_debit paymentLine = JStr ''0'' \<longrightarrow>
            (\<exists>rq. gatewayCalls (fst (chargeSale E options)) = [rq]
                   \<and> cr_value rq = sl_debit paymentLine))"
proof -
  note src = chargePreamble_source [OF assms]
  have body: "chargeSaleTry E options =
      storeCharge E paymentLine (chargeStep E options (sl_debit paymentLine) request)"
    by (simp add: chargeSaleTry_def assms)
  have calls: "gatewayCalls (fst (chargeSale E options)) =
      gatewayCalls (fst (chargeStep E options (sl_debit paymentLine) request))"
    by (simp add: chargeSale_calls body storeCharge_calls)
  have nz: "\<exists>rq. gatewayCalls (fst (chargeSale E options)) = [rq] \<and> cr_value rq = sl_debit paymentLine"
    if "sl_debit paymentLine \<noteq> JStr ''0.00''"
    using chargeStep_calls(2) [OF src that, where E = E and request = request]
      chargePreamble_payment [OF assms]
    by (auto simp: calls)
  have z: "gatewayCalls (fst (chargeSale E options)) = []" if "sl_debit paymentLine = JStr ''0.00''"
    using that by (simp add: calls chargeStep_def)
  show ?thesis
  proof (intro conjI impI allI)
    show "gatewayCalls (fst (chargeSale E options)) \<noteq> [] \<longleftrightarrow> sl_debit paymentLine \<noteq> JStr ''0.00''"
    proof (cases "sl_debit paymentLine = JStr ''0.00''")
      case True
      with z show ?thesis by simp
    next
      case False
      with nz [OF False] show ?thesis by auto
    qed
  next
    fix pid
    assume "sl_debit paymentLine = JStr ''0.00''" and "sl_paymentId paymentLine = Some pid"
    then show "chargeSale E options =
                 ([PaymentUpdate pid
                     (ChargeStored None \<lparr>cres_id = None, cres_amount = None\<rparr> (isMicro E None))],
                  Inr ())"
      by (simp add: chargeSale_def body storeCharge_def chargeStep_def)
  next
    assume "sl_debit paymentLine = JNum 0 \<or> sl_debit paymentLine = JStr ''0''"
    then have "sl_debit paymentLine \<noteq> JStr ''0.00''" by auto
    then show "\<exists>rq. gatewayCalls (fst (chargeSale E options)) = [rq]
                   \<and> cr_value rq = sl_debit paymentLine"
      by (rule nz)
  qed
qed

lemma examplePreamble:
  "\<exists>rq. chargePreamble exampleChargeEnv (exampleCharge d) = Inr (examplePaymentLine d, rq)"
  by (simp add: chargePreamble_def exampleChargeEnv_def exampleCharge_def examplePaymentLine_def
      txnGroup_def present_def companyDescriptorOf_def)

text \<open>C10, witness: the same sale with the debits \<^verbatim>\<open>"0.00"\<close>, \<^verbatim>\<open>0\<close> and \<^verbatim>\<open>"0"\<close>.\<close>

theorem chargeSale_zero_string_witness:
  "gatewayCalls (fst (chargeSale exampleChargeEnv (exampleCharge (JStr ''0.00'')))) = []
   \<and> chargeSale exampleChargeEnv (exampleCharge (JStr ''0.00'')) =
       ([PaymentUpdate 11
           (ChargeStored None \<lparr>cres_id = None, cres_amount = None\<rparr> False)], Inr ())
   \<and> gatewayCalls (fst (chargeSale exampleChargeEnv (exampleCharge (JNum 0)))) \<noteq> []
   \<and> gatewayCalls (fst (chargeSale exampleChargeEnv (exampleCharge (JStr ''0'')))) \<noteq> []"
proof -
  obtain r1 where p1: "chargePreamble exampleChargeEnv (exampleCharge (JStr ''0.00''))
      = Inr (examplePaymentLine (JStr ''0.00''), r1)"
    using examplePreamble by blast
  obtain r2 where p2: "chargePreamble exampleChargeEnv (exampleCharge (JNum 0))
      = Inr (examplePaymentLine (JNum 0), r2)"
    using examplePreamble by blast
  obtain r3 where p3: "chargePreamble exampleChargeEnv (exampleCharge (JStr ''0''))
      = Inr (examplePaymentLine (JStr ''0''), r3)"
    using examplePreamble by blast
  from chargeSale_zero_string [OF p1] chargeSale_zero_string [OF p2] chargeSale_zero_string [OF p3]
  show ?thesis
    by (simp add: examplePaymentLine_def exampleChargeEnv_def)
qed

end
